theory Spec2Isabelle
  imports Complex_Main
begin

section \<open>Conventions\<close>

text \<open>
  The engine stores every number in a C++ \<^verbatim>\<open>double\<close> and every trace position in an
  \<^verbatim>\<open>index_t\<close> (a signed 64-bit integer). Rounding is not modelled: a finite
  \<^verbatim>\<open>double\<close> is a \<^typ>\<open>real\<close> and the arithmetic is exact (every concrete input used
  below is a small integer, on which the two agree). Only the Iverson operators produce
  an infinity on purpose; they get a type of their own further down. Positions are
  \<^typ>\<open>nat\<close>: the only negative index the code ever holds is the transient \<^verbatim>\<open>-1\<close> of a
  handle under construction. A C++ member name that ends in an underscore loses it.
\<close>

section \<open>\<^verbatim>\<open>std::map\<close> as a key-ordered association list\<close>

text \<open>
  \<^verbatim>\<open>std::map<index_t, V>\<close> iterates in ascending key order and holds one value per key.
  \<^verbatim>\<open>m.find(k)\<close> is \<^term>\<open>map_of m k\<close>.
\<close>

definition map_insert :: "nat \<Rightarrow> 'v \<Rightarrow> (nat \<times> 'v) list \<Rightarrow> (nat \<times> 'v) list" where
  \<comment> \<open>\<^verbatim>\<open>m.insert({k, v})\<close>: no effect when the key is present\<close>
  "map_insert k v m = (if map_of m k = None then insort_key fst (k, v) m else m)"

definition map_erase :: "nat \<Rightarrow> (nat \<times> 'v) list \<Rightarrow> (nat \<times> 'v) list" where
  \<comment> \<open>\<^verbatim>\<open>m.erase(k)\<close>, by key or through an iterator to that key\<close>
  "map_erase k m = filter (\<lambda>p. fst p \<noteq> k) m"

definition map_put :: "nat \<Rightarrow> 'v \<Rightarrow> (nat \<times> 'v) list \<Rightarrow> (nat \<times> 'v) list" where
  \<comment> \<open>\<^verbatim>\<open>it->second = v\<close> through an iterator \<^verbatim>\<open>it\<close> to the key \<^verbatim>\<open>k\<close>\<close>
  "map_put k v m = map (\<lambda>p. if fst p = k then (k, v) else p) m"

section \<open>The sparse symmetric matrix (\<^verbatim>\<open>sparse_matrix.h\<close>)\<close>

type_synonym row_t = "(nat \<times> real) list"
type_synonym matrix_t = "(nat \<times> row_t) list"

record SparseSymMat =
  width :: nat
  matrix :: matrix_t

definition row_at :: "matrix_t \<Rightarrow> nat \<Rightarrow> row_t" where
  \<comment> \<open>\<^verbatim>\<open>it->second\<close> for an iterator \<^verbatim>\<open>it\<close> to the row \<^verbatim>\<open>i\<close>\<close>
  "row_at m i = (case map_of m i of None \<Rightarrow> [] | Some r \<Rightarrow> r)"

definition entry :: "matrix_t \<Rightarrow> nat \<Rightarrow> nat \<Rightarrow> real option" where
  \<comment> \<open>the stored element \<^verbatim>\<open>(i, j)\<close>, if there is one\<close>
  "entry m i j = (case map_of m i of None \<Rightarrow> None | Some r \<Rightarrow> map_of r j)"

definition read :: "matrix_t \<Rightarrow> nat \<Rightarrow> nat \<Rightarrow> real" where
  "read m i j =
     (case map_of m i of
        None \<Rightarrow> 0
      | Some r \<Rightarrow> (case map_of r j of None \<Rightarrow> 0 | Some v \<Rightarrow> v))"

definition get_row_ptr :: "matrix_t \<Rightarrow> nat \<Rightarrow> row_t option" where
  "get_row_ptr m i = map_of m i"

definition erase_in_row :: "nat \<Rightarrow> nat \<Rightarrow> matrix_t \<Rightarrow> matrix_t" where
  \<comment> \<open>\<^verbatim>\<open>it->second.erase(j); if (it->second.size() == 0) matrix.erase(it);\<close> for an
      iterator \<^verbatim>\<open>it\<close> to the row \<^verbatim>\<open>i\<close>: the element goes, and the row with it when it was the
      last one\<close>
  "erase_in_row i j m =
     (let row = map_erase j (row_at m i)
      in if length row = 0 then map_erase i m else map_put i row m)"

definition erase_step :: "nat \<Rightarrow> matrix_t \<Rightarrow> nat \<Rightarrow> matrix_t" where
  \<comment> \<open>one round of the loop of \<^verbatim>\<open>erase(i)\<close>, at the key \<^verbatim>\<open>j\<close> of row \<^verbatim>\<open>i\<close>. The source
      asserts that row \<^verbatim>\<open>j\<close> exists; \<open>erase_assert\<close> below shows that it does in
      every symmetric matrix, and the model leaves the matrix alone otherwise.\<close>
  "erase_step i m j =
     (if j = i then m
      else (case map_of m j of
              None \<Rightarrow> m
            | Some row_j \<Rightarrow> erase_in_row j i m))"

definition erase :: "nat \<Rightarrow> matrix_t \<Rightarrow> matrix_t" where
  "erase i m =
     (case map_of m i of
        None \<Rightarrow> m
      | Some row_i \<Rightarrow> map_erase i (foldl (erase_step i) m (map fst row_i)))"

text \<open>
  \<^verbatim>\<open>elem_ref_t\<close>: the element reference returned by \<^verbatim>\<open>get(i, j)\<close>. Its four iterators
  are meaningful only while \<^verbatim>\<open>is_valid_ij\<close> holds, and then point to row \<open>i\<close>, element
  \<open>(i, j)\<close>, row \<open>j\<close> and element \<open>(j, i)\<close>; the model finds these by key. The
  reference holds the matrix by reference, so every operation takes and returns both.
\<close>

record elem_ref_t =
  ref_i :: nat
  ref_j :: nat
  is_valid_ij :: bool

definition get :: "nat \<Rightarrow> nat \<Rightarrow> elem_ref_t" where
  "get i j = \<lparr>ref_i = i, ref_j = j, is_valid_ij = False\<rparr>"

definition prepare_write :: "elem_ref_t \<times> matrix_t \<Rightarrow> elem_ref_t \<times> matrix_t" where
  "prepare_write s =
     (let r = fst s; m = snd s; i = ref_i r; j = ref_j r;
          m1 = map_insert i [] m;
          m2 = map_put i (map_insert j 0 (row_at m1 i)) m1;
          m4 = (if j \<noteq> i
                then (let m3 = map_insert j [] m2
                      in map_put j (map_insert i 0 (row_at m3 j)) m3)
                else m2)
      in (r\<lparr>is_valid_ij := True\<rparr>, m4))"

definition set_zero :: "elem_ref_t \<times> matrix_t \<Rightarrow> elem_ref_t \<times> matrix_t" where
  "set_zero s =
     (let r = fst s; m = snd s; i = ref_i r; j = ref_j r
      in if is_valid_ij r = False then s
         else
           (let m1 = erase_in_row i j m;
                r' = r\<lparr>is_valid_ij := False\<rparr>
            in if j = i then (r', m1) else (r', erase_in_row j i m1)))"

definition cell_add :: "nat \<Rightarrow> nat \<Rightarrow> real \<Rightarrow> matrix_t \<Rightarrow> matrix_t" where
  \<comment> \<open>\<^verbatim>\<open>it->second += x\<close> through the iterator to the element \<^verbatim>\<open>(i, j)\<close>\<close>
  "cell_add i j x m = map_put i (map_put j (read m i j + x) (row_at m i)) m"

definition cell_set :: "nat \<Rightarrow> nat \<Rightarrow> real \<Rightarrow> matrix_t \<Rightarrow> matrix_t" where
  \<comment> \<open>\<^verbatim>\<open>it->second = x\<close> through the iterator to the element \<^verbatim>\<open>(i, j)\<close>\<close>
  "cell_set i j x m = map_put i (map_put j x (row_at m i)) m"

definition plus_assign :: "real \<Rightarrow> elem_ref_t \<times> matrix_t \<Rightarrow> elem_ref_t \<times> matrix_t" where
  \<comment> \<open>\<^verbatim>\<open>operator+=\<close>\<close>
  "plus_assign x s =
     (if x = 0 then s
      else
        (let s1 = (if is_valid_ij (fst s) = False then prepare_write s else s);
             r = fst s1; i = ref_i r; j = ref_j r;
             m1 = cell_add i j x (snd s1)
         in if j = i then (r, m1) else (r, cell_add j i x m1)))"

definition assign :: "real \<Rightarrow> elem_ref_t \<times> matrix_t \<Rightarrow> elem_ref_t \<times> matrix_t" where
  \<comment> \<open>\<^verbatim>\<open>operator=\<close>\<close>
  "assign x s =
     (if x = 0 then set_zero s
      else
        (let s1 = (if is_valid_ij (fst s) = False then prepare_write s else s);
             r = fst s1; i = ref_i r; j = ref_j r;
             m1 = cell_set i j x (snd s1)
         in if j = i then (r, m1) else (r, cell_set j i x m1)))"

definition add_to :: "nat \<Rightarrow> nat \<Rightarrow> real \<Rightarrow> matrix_t \<Rightarrow> matrix_t" where
  \<comment> \<open>the statement \<^verbatim>\<open>hessian.get(i, j) += x;\<close> on a temporary reference\<close>
  "add_to i j x m = snd (plus_assign x (get i j, m))"

subsection \<open>Sequences of matrix operations\<close>

datatype write_t = PlusAssign real | Assign real

datatype mat_op = Write nat nat "write_t list" | Erase nat

fun apply_write :: "elem_ref_t \<times> matrix_t \<Rightarrow> write_t \<Rightarrow> elem_ref_t \<times> matrix_t" where
  "apply_write s (PlusAssign x) = plus_assign x s"
| "apply_write s (Assign x) = assign x s"

fun apply_mat_op :: "matrix_t \<Rightarrow> mat_op \<Rightarrow> matrix_t" where
  "apply_mat_op m (Write i j ws) = snd (foldl apply_write (get i j, m) ws)"
| "apply_mat_op m (Erase i) = erase i m"

definition run_ops :: "mat_op list \<Rightarrow> matrix_t \<Rightarrow> matrix_t" where
  "run_ops ops m = foldl apply_mat_op m ops"

definition symmetric :: "matrix_t \<Rightarrow> bool" where
  "symmetric m = (\<forall>i j. entry m i j = entry m j i)"

section \<open>Tensors, operators and the tape\<close>

datatype error =
    DeclarationAfterRecording
  | UncompatibleTensorDimensions
  | BacktrackingFailure
  | OutsideFragment string

text \<open>
  \<^verbatim>\<open>Tensor\<close> (\<^verbatim>\<open>tensor.h\<close>): a dimension vector and a column-major value vector.
  \<^verbatim>\<open>TensorDim::size()\<close> is the product of the dimensions, and zero for no dimension.
\<close>

record Tensor =
  dim :: "nat list"
  val :: "real list"

definition product :: "nat list \<Rightarrow> nat" where
  "product vec = (if length vec = 0 then 0 else foldl (\<lambda>n ndim. n * ndim) 1 vec)"

definition tensor_size :: "'a Tensor_scheme \<Rightarrow> nat" where
  \<comment> \<open>\<^verbatim>\<open>TensorDim::size()\<close>\<close>
  "tensor_size t = product (dim t)"

definition is_scalar :: "'a Tensor_scheme \<Rightarrow> bool" where
  "is_scalar t = (tensor_size t = 1)"

definition scalar :: "'a Tensor_scheme \<Rightarrow> real" where
  \<comment> \<open>\<^verbatim>\<open>val[0]\<close>; the callers test \<^verbatim>\<open>is_scalar()\<close> first\<close>
  "scalar t = val t ! 0"

definition Tensor_of_dim :: "nat list \<Rightarrow> Tensor" where
  \<comment> \<open>\<^verbatim>\<open>Tensor(dim)\<close>: \<^verbatim>\<open>val.resize(size())\<close>\<close>
  "Tensor_of_dim d = \<lparr>dim = d, val = replicate (product d) 0\<rparr>"

definition Tensor_of_double :: "real \<Rightarrow> Tensor" where
  "Tensor_of_double x = \<lparr>dim = [1], val = [x]\<rparr>"

definition fill :: "real \<Rightarrow> Tensor \<Rightarrow> Tensor" where
  "fill x t = t\<lparr>val := map (\<lambda>v. x) (val t)\<rparr>"

definition vec_op :: "(real \<Rightarrow> real \<Rightarrow> real) \<Rightarrow> real list \<Rightarrow> real list \<Rightarrow> real list" where
  \<comment> \<open>the \<^verbatim>\<open>std::vector\<close> overloads of \<^verbatim>\<open>+ - / pow\<close> (\<^verbatim>\<open>vector_overloads.h\<close>)\<close>
  "vec_op f a b =
     (if length a = 1 then map (\<lambda>y. f (a ! 0) y) b
      else if length b = 1 then map (\<lambda>x. f x (b ! 0)) a
      else map (\<lambda>i. f (a ! i) (b ! i)) [0..<length a])"

definition tensor_op ::
  "(real \<Rightarrow> real \<Rightarrow> real) \<Rightarrow> 'a Tensor_scheme \<Rightarrow> 'b Tensor_scheme \<Rightarrow> error + Tensor" where
  \<comment> \<open>\<^verbatim>\<open>operator+\<close>, \<^verbatim>\<open>operator-\<close>, \<^verbatim>\<open>operator/\<close> and \<^verbatim>\<open>pow\<close> on two tensors\<close>
  "tensor_op f a b =
     (if dim a = dim b then Inr \<lparr>dim = dim a, val = vec_op f (val a) (val b)\<rparr>
      else if is_scalar a then Inr \<lparr>dim = dim b, val = vec_op f (val a) (val b)\<rparr>
      else if is_scalar b then Inr \<lparr>dim = dim a, val = vec_op f (val a) (val b)\<rparr>
      else Inl UncompatibleTensorDimensions)"

definition std_pow :: "real \<Rightarrow> real \<Rightarrow> real" where
  \<comment> \<open>\<^verbatim>\<open>std::pow\<close> of the C library on finite arguments: an integral exponent is a
      repeated product or quotient, any other exponent the real power\<close>
  "std_pow x y = (if y = of_int \<lfloor>y\<rfloor> then x powi \<lfloor>y\<rfloor> else x powr y)"

subsection \<open>Operators (\<^verbatim>\<open>op_base.h\<close>, \<^verbatim>\<open>op_unary.h\<close>, \<^verbatim>\<open>op_plus.h\<close>, \<^verbatim>\<open>op_minus.h\<close>,
  \<^verbatim>\<open>op_multiply.h\<close>, \<^verbatim>\<open>op_divide.h\<close>)\<close>

text \<open>
  \<^verbatim>\<open>IndexRange\<close> is a pair \<open>(begin, end)\<close>. The tape stores a variant over every
  operator type; the types embedded here are the unary specialisations the recorder
  rewrites to and the scalar binary operators with two free operands. A constructor
  lists the operator's \<^verbatim>\<open>in\<close>, then its \<^verbatim>\<open>constant\<close> if it has one, then its \<^verbatim>\<open>out\<close>;
  \<open>_tt\<close> and \<open>_tf\<close> stand for the template arguments \<^verbatim>\<open><true, true>\<close> and
  \<^verbatim>\<open><true, false>\<close>, and the first argument of the two \<open>Trivial\<close> operators is the
  template argument \<^verbatim>\<open>RESULT\<close>.
\<close>

type_synonym IndexRange = "nat \<times> nat"

definition range_size :: "IndexRange \<Rightarrow> nat" where
  "range_size r = snd r - fst r"

definition range_at :: "IndexRange \<Rightarrow> nat \<Rightarrow> nat" where
  "range_at r i = fst r + i"

datatype OpVariant =
    IdentityScalar nat nat
  | IdentityVector IndexRange IndexRange
  | TrivialScalar int nat nat
  | TrivialVector int IndexRange IndexRange
  | InvertScalar nat nat
  | InvertVector IndexRange IndexRange
  | SquareScalar nat nat
  | SquareVector IndexRange IndexRange
  | CubeScalar nat nat
  | CubeVector IndexRange IndexRange
  | PlusScalarScalar_tt nat nat nat
  | MinusScalarScalar_tt nat nat nat
  | MultiplyScalarScalar_tt nat nat nat
  | MultiplyScalarScalar_tf nat real nat
  | MultiplyVectorScalar_tf IndexRange real IndexRange
  | DivideScalarScalar_tt nat nat nat

datatype OpInKind = Array1 | ScalarScalar | Range

fun in_kind :: "OpVariant \<Rightarrow> OpInKind" where
  \<comment> \<open>the \<^verbatim>\<open>OpIn\<close> base class of the operator\<close>
  "in_kind (IdentityScalar a y) = Array1"
| "in_kind (IdentityVector a y) = Range"
| "in_kind (TrivialScalar n a y) = Array1"
| "in_kind (TrivialVector n a y) = Range"
| "in_kind (InvertScalar a y) = Array1"
| "in_kind (InvertVector a y) = Range"
| "in_kind (SquareScalar a y) = Array1"
| "in_kind (SquareVector a y) = Range"
| "in_kind (CubeScalar a y) = Array1"
| "in_kind (CubeVector a y) = Range"
| "in_kind (PlusScalarScalar_tt a b y) = ScalarScalar"
| "in_kind (MinusScalarScalar_tt a b y) = ScalarScalar"
| "in_kind (MultiplyScalarScalar_tt a b y) = ScalarScalar"
| "in_kind (MultiplyScalarScalar_tf a c y) = Array1"
| "in_kind (MultiplyVectorScalar_tf a c y) = Range"
| "in_kind (DivideScalarScalar_tt a b y) = ScalarScalar"

fun in_size :: "OpVariant \<Rightarrow> nat" where
  \<comment> \<open>\<^verbatim>\<open>op.in.size()\<close>\<close>
  "in_size (IdentityScalar a y) = 1"
| "in_size (IdentityVector a y) = range_size a"
| "in_size (TrivialScalar n a y) = 1"
| "in_size (TrivialVector n a y) = range_size a"
| "in_size (InvertScalar a y) = 1"
| "in_size (InvertVector a y) = range_size a"
| "in_size (SquareScalar a y) = 1"
| "in_size (SquareVector a y) = range_size a"
| "in_size (CubeScalar a y) = 1"
| "in_size (CubeVector a y) = range_size a"
| "in_size (PlusScalarScalar_tt a b y) = 2"
| "in_size (MinusScalarScalar_tt a b y) = 2"
| "in_size (MultiplyScalarScalar_tt a b y) = 2"
| "in_size (MultiplyScalarScalar_tf a c y) = 1"
| "in_size (MultiplyVectorScalar_tf a c y) = range_size a"
| "in_size (DivideScalarScalar_tt a b y) = 2"

definition pair_at :: "nat \<Rightarrow> nat \<Rightarrow> nat \<Rightarrow> nat" where
  \<comment> \<open>\<^verbatim>\<open>operand_pair_t::operator[]\<close> for two operands of size one\<close>
  "pair_at left right i = (if i < 1 then left + i else right + i - 1)"

fun op_in :: "OpVariant \<Rightarrow> nat \<Rightarrow> nat" where
  \<comment> \<open>\<^verbatim>\<open>op.in[j]\<close>; a one-element array is only ever read at 0\<close>
  "op_in (IdentityScalar a y) j = a"
| "op_in (IdentityVector a y) j = range_at a j"
| "op_in (TrivialScalar n a y) j = a"
| "op_in (TrivialVector n a y) j = range_at a j"
| "op_in (InvertScalar a y) j = a"
| "op_in (InvertVector a y) j = range_at a j"
| "op_in (SquareScalar a y) j = a"
| "op_in (SquareVector a y) j = range_at a j"
| "op_in (CubeScalar a y) j = a"
| "op_in (CubeVector a y) j = range_at a j"
| "op_in (PlusScalarScalar_tt a b y) j = pair_at a b j"
| "op_in (MinusScalarScalar_tt a b y) j = pair_at a b j"
| "op_in (MultiplyScalarScalar_tt a b y) j = pair_at a b j"
| "op_in (MultiplyScalarScalar_tf a c y) j = a"
| "op_in (MultiplyVectorScalar_tf a c y) j = range_at a j"
| "op_in (DivideScalarScalar_tt a b y) j = pair_at a b j"

fun in_left :: "OpVariant \<Rightarrow> nat" where
  \<comment> \<open>\<^verbatim>\<open>op.in.left[0]\<close> of an operator on \<^verbatim>\<open>OpIn::ScalarScalar\<close>\<close>
  "in_left (PlusScalarScalar_tt a b y) = a"
| "in_left (MinusScalarScalar_tt a b y) = a"
| "in_left (MultiplyScalarScalar_tt a b y) = a"
| "in_left (DivideScalarScalar_tt a b y) = a"
| "in_left operation = op_in operation 0"

fun in_right :: "OpVariant \<Rightarrow> nat" where
  \<comment> \<open>\<^verbatim>\<open>op.in.right[0]\<close> of an operator on \<^verbatim>\<open>OpIn::ScalarScalar\<close>\<close>
  "in_right (PlusScalarScalar_tt a b y) = b"
| "in_right (MinusScalarScalar_tt a b y) = b"
| "in_right (MultiplyScalarScalar_tt a b y) = b"
| "in_right (DivideScalarScalar_tt a b y) = b"
| "in_right operation = op_in operation 1"

fun out_size :: "OpVariant \<Rightarrow> nat" where
  \<comment> \<open>\<^verbatim>\<open>op.out.size()\<close>\<close>
  "out_size (IdentityScalar a y) = 1"
| "out_size (IdentityVector a y) = range_size y"
| "out_size (TrivialScalar n a y) = 1"
| "out_size (TrivialVector n a y) = range_size y"
| "out_size (InvertScalar a y) = 1"
| "out_size (InvertVector a y) = range_size y"
| "out_size (SquareScalar a y) = 1"
| "out_size (SquareVector a y) = range_size y"
| "out_size (CubeScalar a y) = 1"
| "out_size (CubeVector a y) = range_size y"
| "out_size (PlusScalarScalar_tt a b y) = 1"
| "out_size (MinusScalarScalar_tt a b y) = 1"
| "out_size (MultiplyScalarScalar_tt a b y) = 1"
| "out_size (MultiplyScalarScalar_tf a c y) = 1"
| "out_size (MultiplyVectorScalar_tf a c y) = range_size y"
| "out_size (DivideScalarScalar_tt a b y) = 1"

fun op_out :: "OpVariant \<Rightarrow> nat \<Rightarrow> nat" where
  \<comment> \<open>\<^verbatim>\<open>op.out[i]\<close>\<close>
  "op_out (IdentityScalar a y) i = y"
| "op_out (IdentityVector a y) i = range_at y i"
| "op_out (TrivialScalar n a y) i = y"
| "op_out (TrivialVector n a y) i = range_at y i"
| "op_out (InvertScalar a y) i = y"
| "op_out (InvertVector a y) i = range_at y i"
| "op_out (SquareScalar a y) i = y"
| "op_out (SquareVector a y) i = range_at y i"
| "op_out (CubeScalar a y) i = y"
| "op_out (CubeVector a y) i = range_at y i"
| "op_out (PlusScalarScalar_tt a b y) i = y"
| "op_out (MinusScalarScalar_tt a b y) i = y"
| "op_out (MultiplyScalarScalar_tt a b y) i = y"
| "op_out (MultiplyScalarScalar_tf a c y) i = y"
| "op_out (MultiplyVectorScalar_tf a c y) i = range_at y i"
| "op_out (DivideScalarScalar_tt a b y) i = y"

fun HessianDiagAlwaysZero :: "OpVariant \<Rightarrow> bool" where
  \<comment> \<open>the operator derives from \<^verbatim>\<open>HessianDiagAlwaysZero\<close> (\<^verbatim>\<open>HessianAlwaysZero\<close> derives
      from it and from \<^verbatim>\<open>HessianOffDiagAlwaysZero\<close>)\<close>
  "HessianDiagAlwaysZero (IdentityScalar a y) = True"
| "HessianDiagAlwaysZero (IdentityVector a y) = True"
| "HessianDiagAlwaysZero (TrivialScalar n a y) = True"
| "HessianDiagAlwaysZero (TrivialVector n a y) = True"
| "HessianDiagAlwaysZero (PlusScalarScalar_tt a b y) = True"
| "HessianDiagAlwaysZero (MinusScalarScalar_tt a b y) = True"
| "HessianDiagAlwaysZero (MultiplyScalarScalar_tt a b y) = True"
| "HessianDiagAlwaysZero (MultiplyScalarScalar_tf a c y) = True"
| "HessianDiagAlwaysZero operation = False"

fun HessianOffDiagAlwaysZero :: "OpVariant \<Rightarrow> bool" where
  "HessianOffDiagAlwaysZero (IdentityScalar a y) = True"
| "HessianOffDiagAlwaysZero (IdentityVector a y) = True"
| "HessianOffDiagAlwaysZero (TrivialScalar n a y) = True"
| "HessianOffDiagAlwaysZero (TrivialVector n a y) = True"
| "HessianOffDiagAlwaysZero (PlusScalarScalar_tt a b y) = True"
| "HessianOffDiagAlwaysZero (MinusScalarScalar_tt a b y) = True"
| "HessianOffDiagAlwaysZero operation = False"

fun OpIsElementWise :: "OpVariant \<Rightarrow> bool" where
  "OpIsElementWise (InvertVector a y) = True"
| "OpIsElementWise (SquareVector a y) = True"
| "OpIsElementWise (CubeVector a y) = True"
| "OpIsElementWise (MultiplyVectorScalar_tf a c y) = True"
| "OpIsElementWise operation = False"

definition map_range ::
  "('a \<Rightarrow> 'a) \<Rightarrow> IndexRange \<Rightarrow> IndexRange \<Rightarrow> 'a list \<Rightarrow> 'a list" where
  \<comment> \<open>\<^verbatim>\<open>for (i = 0; i < in.size(); i++) v[out[i]] = f(v[in[i]]);\<close> in place\<close>
  "map_range f a y v =
     foldl (\<lambda>v i. v[range_at y i := f (v ! range_at a i)]) v [0..<range_size a]"

fun evaluate :: "OpVariant \<Rightarrow> real list \<Rightarrow> real list" where
  "evaluate (IdentityScalar a y) v = v[y := v ! a]"
| "evaluate (IdentityVector a y) v = map_range (\<lambda>x. x) a y v"
| "evaluate (TrivialScalar n a y) v = v[y := of_int n]"
| "evaluate (TrivialVector n a y) v = map_range (\<lambda>x. of_int n) a y v"
| "evaluate (InvertScalar a y) v = v[y := 1 / v ! a]"
| "evaluate (InvertVector a y) v = map_range (\<lambda>x. 1 / x) a y v"
| "evaluate (SquareScalar a y) v = v[y := v ! a * v ! a]"
| "evaluate (SquareVector a y) v = map_range (\<lambda>x. x * x) a y v"
| "evaluate (CubeScalar a y) v = v[y := v ! a * v ! a * v ! a]"
| "evaluate (CubeVector a y) v = map_range (\<lambda>x. x * x * x) a y v"
| "evaluate (PlusScalarScalar_tt a b y) v = v[y := v ! a + v ! b]"
| "evaluate (MinusScalarScalar_tt a b y) v = v[y := v ! a - v ! b]"
| "evaluate (MultiplyScalarScalar_tt a b y) v = v[y := v ! a * v ! b]"
| "evaluate (MultiplyScalarScalar_tf a c y) v = v[y := v ! a * c]"
| "evaluate (MultiplyVectorScalar_tf a c y) v = map_range (\<lambda>x. x * c) a y v"
| "evaluate (DivideScalarScalar_tt a b y) v = v[y := v ! a / v ! b]"

fun partial :: "OpVariant \<Rightarrow> real list \<Rightarrow> nat \<Rightarrow> nat \<Rightarrow> real" where
  \<comment> \<open>\<^verbatim>\<open>op.local_diff(v).partial(i, j)\<close>: the local first partial of output \<open>i\<close> by
      input \<open>j\<close>\<close>
  "partial (IdentityScalar a y) v i j = 1"
| "partial (IdentityVector a y) v i j = (if j = i then 1 else 0)"
| "partial (TrivialScalar n a y) v i j = 0"
| "partial (TrivialVector n a y) v i j = 0"
| "partial (InvertScalar a y) v i j = - (1 / v ! a) * (1 / v ! a)"
| "partial (InvertVector a y) v i j =
     (if j \<noteq> i then 0 else - (1 / v ! range_at a i) * (1 / v ! range_at a i))"
| "partial (SquareScalar a y) v i j = 2 * v ! a"
| "partial (SquareVector a y) v i j = (if j \<noteq> i then 0 else 2 * v ! range_at a i)"
| "partial (CubeScalar a y) v i j = 3 * v ! a * v ! a"
| "partial (CubeVector a y) v i j =
     (if j \<noteq> i then 0 else 3 * v ! range_at a i * v ! range_at a i)"
| "partial (PlusScalarScalar_tt a b y) v i j = 1"
| "partial (MinusScalarScalar_tt a b y) v i j = (if j = 1 then - 1 else 1)"
| "partial (MultiplyScalarScalar_tt a b y) v i j = (if j = 0 then v ! b else v ! a)"
| "partial (MultiplyScalarScalar_tf a c y) v i j = c"
| "partial (MultiplyVectorScalar_tf a c y) v i j = (if j = i then c else 0)"
| "partial (DivideScalarScalar_tt a b y) v i j =
     (if j = 0 then 1 / v ! b else - (v ! a) * (1 / v ! b) * (1 / v ! b))"

fun partial2 :: "OpVariant \<Rightarrow> real list \<Rightarrow> nat \<Rightarrow> nat \<Rightarrow> nat \<Rightarrow> real" where
  \<comment> \<open>\<^verbatim>\<open>op.local_diff(v).partial(i, j, k)\<close>: the local second partial\<close>
  "partial2 (IdentityScalar a y) v i j k = 0"
| "partial2 (IdentityVector a y) v i j k = 0"
| "partial2 (TrivialScalar n a y) v i j k = 0"
| "partial2 (TrivialVector n a y) v i j k = 0"
| "partial2 (InvertScalar a y) v i j k = 2 * (1 / v ! a) * (1 / v ! a) * (1 / v ! a)"
| "partial2 (InvertVector a y) v i j k =
     (if j \<noteq> i \<or> k \<noteq> i then 0
      else 2 * (1 / v ! range_at a i) * (1 / v ! range_at a i) * (1 / v ! range_at a i))"
| "partial2 (SquareScalar a y) v i j k = 2"
| "partial2 (SquareVector a y) v i j k = (if j \<noteq> i \<or> k \<noteq> i then 0 else 2)"
| "partial2 (CubeScalar a y) v i j k = 6 * v ! a"
| "partial2 (CubeVector a y) v i j k = (if j \<noteq> i \<or> k \<noteq> i then 0 else 6 * v ! range_at a i)"
| "partial2 (PlusScalarScalar_tt a b y) v i j k = 0"
| "partial2 (MinusScalarScalar_tt a b y) v i j k = 0"
| "partial2 (MultiplyScalarScalar_tt a b y) v i j k = (if j = k then 0 else 1)"
| "partial2 (MultiplyScalarScalar_tf a c y) v i j k = 0"
| "partial2 (MultiplyVectorScalar_tf a c y) v i j k = 0"
| "partial2 (DivideScalarScalar_tt a b y) v i j k =
     (if j = 0 \<and> k = 0 then 0
      else if int k = 1 - int j then - (1 / v ! b) * (1 / v ! b)
      else 2 * v ! a * (1 / v ! b) * (1 / v ! b) * (1 / v ! b))"

subsection \<open>The tape (\<^verbatim>\<open>tape.h\<close>) and the variable handle (\<^verbatim>\<open>spy.h\<close>)\<close>

text \<open>
  The tape's map between trace indices and tensor identifiers is left out: the
  constructors and overloads embedded here never touch it.
\<close>

record Tape =
  n_input_size :: nat
  n_trace_size :: nat
  operations :: "OpVariant list"
  initial_values :: "real list"

definition Tape_new :: "nat \<Rightarrow> Tape" where
  \<comment> \<open>\<^verbatim>\<open>Tape(n_input_size = 0)\<close>\<close>
  "Tape_new n = \<lparr>n_input_size = n, n_trace_size = n, operations = [], initial_values = []\<rparr>"

definition input_size :: "Tape \<Rightarrow> nat" where
  "input_size t = n_input_size t"

definition trace_size :: "Tape \<Rightarrow> nat" where
  "trace_size t = n_trace_size t"

definition op_register :: "OpVariant \<Rightarrow> Tape \<Rightarrow> Tape" where
  "op_register operation t =
     t\<lparr>operations := operations t @ [operation],
       n_trace_size := n_trace_size t + out_size operation\<rparr>"

definition rec_scalar :: "(nat \<Rightarrow> OpVariant) \<Rightarrow> Tape \<Rightarrow> nat \<times> Tape" where
  \<comment> \<open>\<^verbatim>\<open>rec<OP>(in, constant)\<close> for an \<^verbatim>\<open>OP\<close> on \<^verbatim>\<open>OpOut::Scalar\<close>; \<open>mk\<close> is the
      constructor of \<^verbatim>\<open>OP\<close> applied to \<^verbatim>\<open>in\<close> and \<^verbatim>\<open>constant\<close>\<close>
  "rec_scalar mk t =
     (let out_begin = trace_size t in (out_begin, op_register (mk out_begin) t))"

definition rec_range :: "(IndexRange \<Rightarrow> OpVariant) \<Rightarrow> nat \<Rightarrow> Tape \<Rightarrow> nat \<times> Tape" where
  \<comment> \<open>\<^verbatim>\<open>rec<OP>(in, constant)\<close> for an \<^verbatim>\<open>OP\<close> on \<^verbatim>\<open>OpOut::Range\<close>; \<open>n\<close> is
      \<^verbatim>\<open>OP::output_range_size(in, constant)\<close>\<close>
  "rec_range mk n t =
     (let out_begin = trace_size t
      in (out_begin, op_register (mk (out_begin, out_begin + n)) t))"

record Spy = Tensor +
  tape_id :: nat
  tensor_id :: int

definition tape_begin :: "Spy \<Rightarrow> nat" where
  "tape_begin s = tape_id s"

definition tape_end :: "Spy \<Rightarrow> nat" where
  "tape_end s = tape_id s + length (val s)"

definition as_Range :: "Spy \<Rightarrow> IndexRange" where
  \<comment> \<open>\<^verbatim>\<open>operator OpIn::Range()\<close>\<close>
  "as_Range s = (tape_begin s, tape_end s)"

definition Spy_at :: "'a Tensor_scheme \<Rightarrow> nat \<Rightarrow> Spy" where
  \<comment> \<open>\<^verbatim>\<open>Spy(tensor, tape, tape_id)\<close>; the tape is passed alongside\<close>
  "Spy_at tensor i = \<lparr>dim = dim tensor, val = val tensor, tape_id = i, tensor_id = - 1\<rparr>"

definition Spy_input :: "Tensor \<Rightarrow> Tape \<Rightarrow> error + Spy \<times> Tape" where
  \<comment> \<open>\<^verbatim>\<open>Spy(const Tensor& tensor, Tape& tape)\<close>: the declaration of a free input\<close>
  "Spy_input tensor t =
     (let s = Spy_at tensor (input_size t)
      in if length (operations t) > 0 then Inl DeclarationAfterRecording
         else Inr (s, t\<lparr>n_input_size := n_input_size t + length (val s),
                         n_trace_size := n_trace_size t + length (val s),
                         initial_values := initial_values t @ val s\<rparr>))"

definition Spy_copy :: "Spy \<Rightarrow> Tape \<Rightarrow> Spy \<times> Tape" where
  \<comment> \<open>\<^verbatim>\<open>Spy(const Spy& spy)\<close>\<close>
  "Spy_copy spy t =
     (let this = Spy_at spy 0;
          r = (if is_scalar this then rec_scalar (IdentityScalar (tape_begin spy)) t
               else rec_range (IdentityVector (as_Range spy)) (range_size (as_Range spy)) t)
      in (this\<lparr>tape_id := fst r\<rparr>, snd r))"

subsection \<open>The recording overloads (\<^verbatim>\<open>spy_plus.cpp\<close>, \<^verbatim>\<open>spy_minus.cpp\<close>, \<^verbatim>\<open>spy_divide.cpp\<close>,
  \<^verbatim>\<open>spy_power.cpp\<close>)\<close>

text \<open>
  Each overload picks an operator type from the operands' shapes, records it and
  returns the handle of its output. A branch that records an operator type outside
  the embedded ones ends in \<open>OutsideFragment\<close> with the name of that type.
\<close>

definition with_value :: "error + Tensor \<Rightarrow> nat \<times> Tape \<Rightarrow> error + Spy \<times> Tape" where
  \<comment> \<open>\<^verbatim>\<open>return Spy(<tensor expression>, tape, out);\<close>\<close>
  "with_value x r = (case x of Inl e \<Rightarrow> Inl e | Inr tensor \<Rightarrow> Inr (Spy_at tensor (fst r), snd r))"

definition spy_plus :: "Spy \<Rightarrow> Spy \<Rightarrow> Tape \<Rightarrow> error + Spy \<times> Tape" where
  \<comment> \<open>\<^verbatim>\<open>operator+(const Spy& a, const Spy& b)\<close>\<close>
  "spy_plus a b t =
     (if tape_begin a = tape_begin b then
        with_value (tensor_op (+) a b)
          (if is_scalar a then rec_scalar (MultiplyScalarScalar_tf (tape_begin a) 2) t
           else rec_range (MultiplyVectorScalar_tf (as_Range a) 2) (range_size (as_Range a)) t)
      else if dim a = dim b then
        (if is_scalar a then
           with_value (tensor_op (+) a b)
             (rec_scalar (PlusScalarScalar_tt (tape_begin a) (tape_begin b)) t)
         else Inl (OutsideFragment ''PlusVectorVector<true,true>''))
      else if is_scalar a then Inl (OutsideFragment ''PlusVectorScalar<true,true>'')
      else if is_scalar b then Inl (OutsideFragment ''PlusVectorScalar<true,true>'')
      else Inl UncompatibleTensorDimensions)"

definition spy_minus :: "Spy \<Rightarrow> Spy \<Rightarrow> Tape \<Rightarrow> error + Spy \<times> Tape" where
  \<comment> \<open>\<^verbatim>\<open>operator-(const Spy& a, const Spy& b)\<close>\<close>
  "spy_minus a b t =
     (if tape_begin a = tape_begin b then
        with_value (Inr (fill 0 (Tensor_of_dim (dim a))))
          (if is_scalar a then rec_scalar (TrivialScalar 0 (tape_begin a)) t
           else rec_range (TrivialVector 0 (as_Range a)) (range_size (as_Range a)) t)
      else if dim a = dim b then
        (if is_scalar a then
           with_value (tensor_op (-) a b)
             (rec_scalar (MinusScalarScalar_tt (tape_begin a) (tape_begin b)) t)
         else Inl (OutsideFragment ''MinusVectorVector<true,true>''))
      else if is_scalar a then Inl (OutsideFragment ''MinusScalarVector<true,true>'')
      else if is_scalar b then Inl (OutsideFragment ''MinusVectorScalar<true,true>'')
      else Inl UncompatibleTensorDimensions)"

definition spy_divide :: "Spy \<Rightarrow> Spy \<Rightarrow> Tape \<Rightarrow> error + Spy \<times> Tape" where
  \<comment> \<open>\<^verbatim>\<open>operator/(const Spy& a, const Spy& b)\<close>\<close>
  "spy_divide a b t =
     (if tape_begin a = tape_begin b then
        with_value (Inr (fill 1 (Tensor_of_dim (dim a))))
          (if is_scalar a then rec_scalar (TrivialScalar 1 (tape_begin a)) t
           else rec_range (TrivialVector 1 (as_Range a)) (range_size (as_Range a)) t)
      else if dim a = dim b then
        (if is_scalar a then
           with_value (tensor_op (/) a b)
             (rec_scalar (DivideScalarScalar_tt (tape_begin a) (tape_begin b)) t)
         else Inl (OutsideFragment ''DivideVectorVector<true,true>''))
      else if is_scalar a then Inl (OutsideFragment ''DivideScalarVector<true,true>'')
      else if is_scalar b then Inl (OutsideFragment ''DivideVectorScalar<true,true>'')
      else Inl UncompatibleTensorDimensions)"

definition tensor_divide_spy :: "Tensor \<Rightarrow> Spy \<Rightarrow> Tape \<Rightarrow> error + Spy \<times> Tape" where
  \<comment> \<open>\<^verbatim>\<open>operator/(const Tensor& a, const Spy& b)\<close>\<close>
  "tensor_divide_spy a b t =
     (if is_scalar a \<and> scalar a = 0 then
        with_value (tensor_op (/) a b)
          (if is_scalar b then rec_scalar (TrivialScalar 0 (tape_begin b)) t
           else rec_range (TrivialVector 0 (as_Range b)) (range_size (as_Range b)) t)
      else if is_scalar a \<and> scalar a = 1 then
        with_value (tensor_op (/) a b)
          (if is_scalar b then rec_scalar (InvertScalar (tape_begin b)) t
           else rec_range (InvertVector (as_Range b)) (range_size (as_Range b)) t)
      else if dim a = dim b then
        (if is_scalar a then Inl (OutsideFragment ''DivideScalarScalar<false,true>'')
         else Inl (OutsideFragment ''DivideVectorVector<false,true>''))
      else if is_scalar a then Inl (OutsideFragment ''DivideScalarVector<false,true>'')
      else if is_scalar b then Inl (OutsideFragment ''DivideVectorScalar<false,true>'')
      else Inl UncompatibleTensorDimensions)"

definition spy_pow :: "Spy \<Rightarrow> Tensor \<Rightarrow> Tape \<Rightarrow> error + Spy \<times> Tape" where
  \<comment> \<open>\<^verbatim>\<open>pow(const Spy& a, const Tensor& b)\<close>\<close>
  "spy_pow a b t =
     (if is_scalar b \<and> scalar b = - 1 then
        with_value (tensor_op std_pow a b)
          (if is_scalar a then rec_scalar (InvertScalar (tape_begin a)) t
           else rec_range (InvertVector (as_Range a)) (range_size (as_Range a)) t)
      else if is_scalar b \<and> scalar b = 0 then
        with_value (tensor_op std_pow a b)
          (if is_scalar a then rec_scalar (TrivialScalar 1 (tape_begin a)) t
           else rec_range (TrivialVector 1 (as_Range a)) (range_size (as_Range a)) t)
      else if is_scalar b \<and> scalar b = 1 then
        with_value (tensor_op std_pow a b)
          (if is_scalar a then rec_scalar (IdentityScalar (tape_begin a)) t
           else rec_range (IdentityVector (as_Range a)) (range_size (as_Range a)) t)
      else if is_scalar b \<and> scalar b = 2 then
        with_value (tensor_op std_pow a b)
          (if is_scalar a then rec_scalar (SquareScalar (tape_begin a)) t
           else rec_range (SquareVector (as_Range a)) (range_size (as_Range a)) t)
      else if is_scalar b \<and> scalar b = 3 then
        with_value (tensor_op std_pow a b)
          (if is_scalar a then rec_scalar (CubeScalar (tape_begin a)) t
           else rec_range (CubeVector (as_Range a)) (range_size (as_Range a)) t)
      else if dim a = dim b then
        (if is_scalar a then Inl (OutsideFragment ''PowerScalarScalar<true,false>'')
         else Inl (OutsideFragment ''PowerVectorVector<true,false>''))
      else if is_scalar a then Inl (OutsideFragment ''PowerScalarVector<true,false>'')
      else if is_scalar b then Inl (OutsideFragment ''PowerVectorScalar<true,false>'')
      else Inl UncompatibleTensorDimensions)"

section \<open>The trace and its playback (\<^verbatim>\<open>trace.h\<close>, \<^verbatim>\<open>tape_autodiff.cpp\<close>)\<close>

text \<open>
  The field \<^verbatim>\<open>values\<close> is written \<open>values'\<close>. The trace refers to its tape; here the
  tape is an argument of the playback functions.
\<close>

record Trace =
  values' :: "real list"
  adjoints :: "real list"
  hessian :: SparseSymMat

definition Trace_new :: "Tape \<Rightarrow> Trace" where
  \<comment> \<open>\<^verbatim>\<open>Trace(Tape& tape)\<close>: \<^verbatim>\<open>trace_size()\<close> zeros, the initial values copied over the
      first ones\<close>
  "Trace_new t =
     \<lparr>values' = take (trace_size t)
                   (initial_values t @ replicate (trace_size t - length (initial_values t)) 0),
      adjoints = replicate (trace_size t) 0,
      hessian = \<lparr>width = input_size t, matrix = []\<rparr>\<rparr>"

definition result :: "Trace \<Rightarrow> real" where
  \<comment> \<open>\<^verbatim>\<open>values.back()\<close>\<close>
  "result tr = last (values' tr)"

definition play_forward :: "Tape \<Rightarrow> Trace \<Rightarrow> Trace" where
  "play_forward t tr =
     tr\<lparr>values' := foldl (\<lambda>v op_variant. evaluate op_variant v) (values' tr) (operations t)\<rparr>"

definition adj_add :: "nat \<Rightarrow> real \<Rightarrow> real list \<Rightarrow> real list" where
  \<comment> \<open>\<^verbatim>\<open>trace.adjoints[j] += x\<close>\<close>
  "adj_add j x a = a[j := a ! j + x]"

definition adjoint_update ::
  "OpVariant \<Rightarrow> real list \<Rightarrow> nat \<Rightarrow> real \<Rightarrow> real list \<Rightarrow> real list" where
  "adjoint_update operation v i_local w a =
     (if in_kind operation = Array1 then
        adj_add (op_in operation 0) (partial operation v i_local 0 * w) a
      else if in_kind operation = ScalarScalar then
        adj_add (in_right operation) (partial operation v i_local 1 * w)
          (adj_add (in_left operation) (partial operation v i_local 0 * w) a)
      else if OpIsElementWise operation then
        adj_add (op_in operation i_local) (partial operation v i_local i_local * w) a
      else
        foldl (\<lambda>a j_local.
                 (let didj = partial operation v i_local j_local
                  in if didj = 0 then a else adj_add (op_in operation j_local) (didj * w) a))
              a [0..<in_size operation])"

definition pushing_part_1 ::
  "OpVariant \<Rightarrow> real list \<Rightarrow> nat \<Rightarrow> nat \<Rightarrow> row_t \<Rightarrow> matrix_t \<Rightarrow> matrix_t" where
  \<comment> \<open>the loop over the row \<open>r\<close> of the output \<open>i\<close>. An operand is never the
      operator's own output, so the row is not written while the loop reads it\<close>
  "pushing_part_1 operation v i_local i r m =
     foldl (\<lambda>m it_j.
        (let j = fst it_j
         in if j = i then m
            else if in_kind operation = Array1 then
              (let didk = partial operation v i_local 0
               in if didk \<noteq> 0 then add_to j (op_in operation 0) (didk * snd it_j) m else m)
            else if in_kind operation = ScalarScalar then
              (let didk = partial operation v i_local 0;
                   m1 = (if didk \<noteq> 0 then add_to j (in_left operation) (didk * snd it_j) m
                         else m);
                   didl = partial operation v i_local 1
               in if didl \<noteq> 0 then add_to j (in_right operation) (didl * snd it_j) m1 else m1)
            else
              foldl (\<lambda>m k_in.
                       (let k = op_in operation k_in;
                            didk = partial operation v i_local k_in
                        in if didk = 0 then m else add_to j k (didk * snd it_j) m))
                    m [0..<in_size operation]))
       m r"

definition pushing_part_2 ::
  "OpVariant \<Rightarrow> real list \<Rightarrow> nat \<Rightarrow> nat \<Rightarrow> matrix_t \<Rightarrow> matrix_t" where
  "pushing_part_2 operation v i_local i m =
     (case map_of (row_at m i) i of
        None \<Rightarrow> m
      | Some r_i \<Rightarrow>
          if in_kind operation = Array1 then
            (let didj = partial operation v i_local 0
             in if didj \<noteq> 0
                then add_to (op_in operation 0) (op_in operation 0) (didj * didj * r_i) m
                else m)
          else if in_kind operation = ScalarScalar then
            (let didj = partial operation v i_local 0;
                 didk = partial operation v i_local 1;
                 didj_didk = didj * didk;
                 m1 = (if didj \<noteq> 0
                       then add_to (in_left operation) (in_left operation) (didj * didj * r_i) m
                       else m);
                 m2 = (if didk \<noteq> 0
                       then add_to (in_right operation) (in_right operation) (didk * didk * r_i) m1
                       else m1)
             in if didj_didk \<noteq> 0
                then add_to (in_left operation) (in_right operation) (didj_didk * r_i) m2
                else m2)
          else
            foldl (\<lambda>m j_in.
                     (let didj = partial operation v i_local j_in
                      in if didj = 0 then m
                         else
                           foldl (\<lambda>m k_in.
                                    (let didk = partial operation v i_local k_in
                                     in if didk = 0 then m
                                        else add_to (op_in operation j_in) (op_in operation k_in)
                                               (didj * didk * r_i) m))
                                 m [j_in..<in_size operation]))
                  m [0..<in_size operation])"

definition creating_part_unary ::
  "OpVariant \<Rightarrow> real list \<Rightarrow> real \<Rightarrow> nat \<Rightarrow> nat \<Rightarrow> matrix_t \<Rightarrow> matrix_t" where
  "creating_part_unary operation v w i_local j_local m =
     (if HessianDiagAlwaysZero operation = False then
        (let j = op_in operation j_local;
             d2idj2 = partial2 operation v i_local j_local j_local
         in if d2idj2 \<noteq> 0 then add_to j j (d2idj2 * w) m else m)
      else m)"

definition creating_part_binary ::
  "OpVariant \<Rightarrow> real list \<Rightarrow> real \<Rightarrow> nat \<Rightarrow> nat \<Rightarrow> nat \<Rightarrow> matrix_t \<Rightarrow> matrix_t" where
  "creating_part_binary operation v w i_local j_local k_local m =
     (let j = op_in operation j_local;
          k = op_in operation k_local;
          m2 = (if HessianDiagAlwaysZero operation = False then
                  (let d2idj2 = partial2 operation v i_local j_local j_local;
                       m1 = (if d2idj2 \<noteq> 0 then add_to j j (d2idj2 * w) m else m);
                       d2idk2 = partial2 operation v i_local k_local k_local
                   in if d2idk2 \<noteq> 0 then add_to k k (d2idk2 * w) m1 else m1)
                else m)
      in if HessianOffDiagAlwaysZero operation = False then
           (let d2idjdk = partial2 operation v i_local j_local k_local
            in if d2idjdk \<noteq> 0 then add_to j k (d2idjdk * w) m2 else m2)
         else m2)"

definition creating_part ::
  "OpVariant \<Rightarrow> real list \<Rightarrow> real \<Rightarrow> nat \<Rightarrow> matrix_t \<Rightarrow> matrix_t" where
  "creating_part operation v w i_local m =
     (if in_kind operation = Array1 then creating_part_unary operation v w i_local 0 m
      else if in_kind operation = ScalarScalar then
        creating_part_binary operation v w i_local 0 1 m
      else if OpIsElementWise operation then
        creating_part_unary operation v w i_local i_local m
      else
        foldl (\<lambda>m j_local.
           (let j = op_in operation j_local;
                m1 = (if HessianDiagAlwaysZero operation = False then
                        (let d2idj2 = partial2 operation v i_local j_local j_local
                         in if d2idj2 \<noteq> 0 then add_to j j (d2idj2 * w) m else m)
                      else m)
            in if HessianOffDiagAlwaysZero operation = False then
                 foldl (\<lambda>m k_local.
                          (let d2idjdk = partial2 operation v i_local j_local k_local
                           in if d2idjdk \<noteq> 0
                              then add_to j (op_in operation k_local) (d2idjdk * w) m
                              else m))
                       m1 [j_local + 1..<in_size operation]
               else m1))
          m [0..<in_size operation])"

definition reverse_output ::
  "OpVariant \<Rightarrow> real list \<Rightarrow> real list \<times> matrix_t \<Rightarrow> nat \<Rightarrow> real list \<times> matrix_t" where
  \<comment> \<open>one round of the loop over the outputs in \<^verbatim>\<open>OpVariantReverse::operator()\<close>; the
      state is the adjoint vector and the Hessian's map\<close>
  "reverse_output operation v s i_local =
     (let a = fst s; m = snd s;
          i = op_out operation i_local;
          w = a ! i;
          a1 = (if w \<noteq> 0 then adjoint_update operation v i_local w a else a);
          r = get_row_ptr m i;
          m1 = (case r of None \<Rightarrow> m | Some row \<Rightarrow> pushing_part_1 operation v i_local i row m);
          m2 = (case r of None \<Rightarrow> m1 | Some row \<Rightarrow> pushing_part_2 operation v i_local i m1);
          m3 = (if w \<noteq> 0 then creating_part operation v w i_local m2 else m2);
          m4 = (case r of None \<Rightarrow> m3 | Some row \<Rightarrow> erase i m3)
      in (a1, m4))"

definition OpVariantReverse ::
  "OpVariant \<Rightarrow> real list \<Rightarrow> real list \<times> matrix_t \<Rightarrow> real list \<times> matrix_t" where
  "OpVariantReverse operation v s = foldl (reverse_output operation v) s [0..<out_size operation]"

definition play_reverse :: "Tape \<Rightarrow> Trace \<Rightarrow> Trace" where
  "play_reverse t tr =
     (let cleared = map (\<lambda>it. 0) (adjoints tr);
          seeded = cleared[length cleared - 1 := 1];
          s = foldl (\<lambda>s it. OpVariantReverse it (values' tr) s) (seeded, []) (rev (operations t))
      in tr\<lparr>adjoints := fst s, hessian := (hessian tr)\<lparr>matrix := snd s\<rparr>\<rparr>)"

definition play :: "Tape \<Rightarrow> Trace \<Rightarrow> Trace" where
  "play t tr = play_reverse t (play_forward t tr)"

section \<open>The Iverson operators (\<^verbatim>\<open>op_iverson.h\<close>)\<close>

text \<open>
  These operators compare with zero and write an infinity, so their values are
  IEEE doubles with the special values kept apart. A comparison with a NaN is false.
\<close>

datatype double = Finite real | PlusInfinity | MinusInfinity | NaN

fun gt_zero :: "double \<Rightarrow> bool" where
  \<comment> \<open>\<^verbatim>\<open>x > 0.0\<close>\<close>
  "gt_zero (Finite x) = (x > 0)"
| "gt_zero PlusInfinity = True"
| "gt_zero MinusInfinity = False"
| "gt_zero NaN = False"

fun ge_zero :: "double \<Rightarrow> bool" where
  \<comment> \<open>\<^verbatim>\<open>x >= 0.0\<close>\<close>
  "ge_zero (Finite x) = (x \<ge> 0)"
| "ge_zero PlusInfinity = True"
| "ge_zero MinusInfinity = False"
| "ge_zero NaN = False"

datatype IversonOp =
    GreaterThanZeroScalar nat nat
  | GreaterThanZeroVector IndexRange IndexRange
  | GreaterThanOrEqualZeroScalar nat nat
  | GreaterThanOrEqualZeroVector IndexRange IndexRange
  | LogGreaterThanZeroScalar nat nat
  | LogGreaterThanZeroVector IndexRange IndexRange
  | LogGreaterThanOrEqualZeroScalar nat nat
  | LogGreaterThanOrEqualZeroVector IndexRange IndexRange

fun iverson_evaluate :: "IversonOp \<Rightarrow> double list \<Rightarrow> double list" where
  "iverson_evaluate (GreaterThanZeroScalar a y) v =
     v[y := (if gt_zero (v ! a) then Finite 1 else Finite 0)]"
| "iverson_evaluate (GreaterThanZeroVector a y) v =
     map_range (\<lambda>x. if gt_zero x then Finite 1 else Finite 0) a y v"
| "iverson_evaluate (GreaterThanOrEqualZeroScalar a y) v =
     v[y := (if ge_zero (v ! a) then Finite 1 else Finite 0)]"
| "iverson_evaluate (GreaterThanOrEqualZeroVector a y) v =
     map_range (\<lambda>x. if ge_zero x then Finite 1 else Finite 0) a y v"
| "iverson_evaluate (LogGreaterThanZeroScalar a y) v =
     v[y := (if gt_zero (v ! a) then Finite 0 else MinusInfinity)]"
| "iverson_evaluate (LogGreaterThanZeroVector a y) v =
     map_range (\<lambda>x. if gt_zero x then Finite 0 else MinusInfinity) a y v"
| "iverson_evaluate (LogGreaterThanOrEqualZeroScalar a y) v =
     v[y := (if ge_zero (v ! a) then Finite 0 else MinusInfinity)]"
| "iverson_evaluate (LogGreaterThanOrEqualZeroVector a y) v =
     map_range (\<lambda>x. if ge_zero x then Finite 0 else MinusInfinity) a y v"

definition iverson_partial :: "IversonOp \<Rightarrow> double list \<Rightarrow> nat \<Rightarrow> nat \<Rightarrow> double" where
  \<comment> \<open>\<^verbatim>\<open>op.local_diff(v).partial(i, j)\<close>, the same in all eight operators\<close>
  "iverson_partial operation v i j = Finite 0"

definition iverson_partial2 :: "IversonOp \<Rightarrow> double list \<Rightarrow> nat \<Rightarrow> nat \<Rightarrow> nat \<Rightarrow> double" where
  \<comment> \<open>\<^verbatim>\<open>op.local_diff(v).partial(i, j, k)\<close>\<close>
  "iverson_partial2 operation v i j k = Finite 0"

fun iverson_in :: "IversonOp \<Rightarrow> IndexRange" where
  "iverson_in (GreaterThanZeroScalar a y) = (a, a + 1)"
| "iverson_in (GreaterThanZeroVector a y) = a"
| "iverson_in (GreaterThanOrEqualZeroScalar a y) = (a, a + 1)"
| "iverson_in (GreaterThanOrEqualZeroVector a y) = a"
| "iverson_in (LogGreaterThanZeroScalar a y) = (a, a + 1)"
| "iverson_in (LogGreaterThanZeroVector a y) = a"
| "iverson_in (LogGreaterThanOrEqualZeroScalar a y) = (a, a + 1)"
| "iverson_in (LogGreaterThanOrEqualZeroVector a y) = a"

fun iverson_out :: "IversonOp \<Rightarrow> IndexRange" where
  "iverson_out (GreaterThanZeroScalar a y) = (y, y + 1)"
| "iverson_out (GreaterThanZeroVector a y) = y"
| "iverson_out (GreaterThanOrEqualZeroScalar a y) = (y, y + 1)"
| "iverson_out (GreaterThanOrEqualZeroVector a y) = y"
| "iverson_out (LogGreaterThanZeroScalar a y) = (y, y + 1)"
| "iverson_out (LogGreaterThanZeroVector a y) = y"
| "iverson_out (LogGreaterThanOrEqualZeroScalar a y) = (y, y + 1)"
| "iverson_out (LogGreaterThanOrEqualZeroVector a y) = y"

fun iverson_holds :: "IversonOp \<Rightarrow> double \<Rightarrow> bool" where
  \<comment> \<open>the predicate in the operator's bracket\<close>
  "iverson_holds (GreaterThanZeroScalar a y) x = gt_zero x"
| "iverson_holds (GreaterThanZeroVector a y) x = gt_zero x"
| "iverson_holds (GreaterThanOrEqualZeroScalar a y) x = ge_zero x"
| "iverson_holds (GreaterThanOrEqualZeroVector a y) x = ge_zero x"
| "iverson_holds (LogGreaterThanZeroScalar a y) x = gt_zero x"
| "iverson_holds (LogGreaterThanZeroVector a y) x = gt_zero x"
| "iverson_holds (LogGreaterThanOrEqualZeroScalar a y) x = ge_zero x"
| "iverson_holds (LogGreaterThanOrEqualZeroVector a y) x = ge_zero x"

fun log_scale :: "IversonOp \<Rightarrow> bool" where
  "log_scale (LogGreaterThanZeroScalar a y) = True"
| "log_scale (LogGreaterThanZeroVector a y) = True"
| "log_scale (LogGreaterThanOrEqualZeroScalar a y) = True"
| "log_scale (LogGreaterThanOrEqualZeroVector a y) = True"
| "log_scale operation = False"

section \<open>The solver's working matrix (\<^verbatim>\<open>eigen_sparse_matrix.cpp\<close>)\<close>

text \<open>
  \<^verbatim>\<open>EigenSparseMat\<close> is a sparse matrix of the linear-algebra library, filled from a
  list of triplets \<open>(row, column, value)\<close> by \<^verbatim>\<open>setFromTriplets\<close>, which adds up the
  triplets of one position. The constructor's work is the triplet list; the matrix
  is modelled by that list, its size and the library's two readings of it.
\<close>

type_synonym triplet = "nat \<times> nat \<times> real"

record EigenSparseMat =
  rows :: nat
  cols :: nat
  triplets :: "triplet list"

definition coeff :: "EigenSparseMat \<Rightarrow> nat \<Rightarrow> nat \<Rightarrow> real" where
  \<comment> \<open>the coefficient at \<open>(i, j)\<close> after \<^verbatim>\<open>setFromTriplets\<close>\<close>
  "coeff M i j =
     sum_list (map (\<lambda>t. snd (snd t)) (filter (\<lambda>t. fst t = i \<and> fst (snd t) = j) (triplets M)))"

definition is_stored :: "EigenSparseMat \<Rightarrow> nat \<Rightarrow> nat \<Rightarrow> bool" where
  \<comment> \<open>the position \<open>(i, j)\<close> is in the matrix's sparsity pattern\<close>
  "is_stored M i j = (filter (\<lambda>t. fst t = i \<and> fst (snd t) = j) (triplets M) \<noteq> [])"

definition row_triplets :: "nat list \<Rightarrow> nat \<times> row_t \<Rightarrow> triplet list" where
  \<comment> \<open>one round of the constructor's loop over the rows of the Hessian\<close>
  "row_triplets fixed_indices row =
     (let pushed = map (\<lambda>fixed_i. (fst row, fst row, - 1))
                       (filter (\<lambda>fixed_i. fst row = fixed_i) fixed_indices);
          skip = (pushed \<noteq> [])
      in if skip then pushed
         else map (\<lambda>entry. (fst row, fst entry, snd entry)) (snd row))"

definition EigenSparseMat_new :: "SparseSymMat \<Rightarrow> nat list \<Rightarrow> EigenSparseMat" where
  \<comment> \<open>\<^verbatim>\<open>EigenSparseMat(hessian_map, fixed_indices)\<close>\<close>
  "EigenSparseMat_new hessian_map fixed_indices =
     \<lparr>rows = width hessian_map, cols = width hessian_map,
      triplets = concat (map (row_triplets fixed_indices) (matrix hessian_map))\<rparr>"

section \<open>The Newton solver (\<^verbatim>\<open>solver.h\<close>, \<^verbatim>\<open>solver_newton.cpp\<close>)\<close>

record SolverConfig =
  max_iterations :: nat
  objective_tolerance :: real
  diagnostic_mode :: bool
  max_regularization_attempts :: nat
  regularization_damping_factor :: real
  brent_tolerance_factor :: real
  brent_boundary_left :: real
  brent_boundary_right :: real
  brent_feasible_search_restriction_factor :: real

definition default_config :: SolverConfig where
  "default_config =
     \<lparr>max_iterations = 1000, objective_tolerance = 1 / 1000, diagnostic_mode = False,
      max_regularization_attempts = 10, regularization_damping_factor = 2,
      brent_tolerance_factor = 1, brent_boundary_left = - 1, brent_boundary_right = 2,
      brent_feasible_search_restriction_factor = 3 / 4\<rparr>"

subsection \<open>The regularised Newton direction\<close>

text \<open>
  The sparse LU solver is a collaborator. During one Newton iteration the gradient
  and the buffered Hessian do not change, so the matrix handed to the solver,
  \<open>(1 - \<lambda>) H + \<lambda> I\<close>, depends on the regularisation strength \<open>\<lambda>\<close> alone, and so do
  the solver's answers: \<open>factorize_info \<lambda>\<close> is \<^verbatim>\<open>LU_solver.info()\<close> after
  \<^verbatim>\<open>factorize\<close>, \<open>solve_info \<lambda>\<close> the same after \<^verbatim>\<open>solve\<close>, and \<open>solve_result \<lambda>\<close> the
  negated solution written to the direction buffer. \<open>\<lambda> = 0\<close> is the unregularised
  attempt.
\<close>

datatype ComputationInfo = Success | NumericalIssue

record 'd SparseLU =
  factorize_info :: "real \<Rightarrow> ComputationInfo"
  solve_info :: "real \<Rightarrow> ComputationInfo"
  solve_result :: "real \<Rightarrow> 'd"

record 'd direction_state =
  n_regul :: nat
  lambda :: real
  direction_buffer :: 'd

definition factorize_and_solve :: "'d SparseLU \<Rightarrow> 'd direction_state \<Rightarrow> 'd direction_state" where
  \<comment> \<open>\<^verbatim>\<open>factorize\<close>, then \<^verbatim>\<open>solve\<close> if that went well; \<^verbatim>\<open>n_regul++\<close> when either fails\<close>
  "factorize_and_solve lu st =
     (if factorize_info lu (lambda st) \<noteq> Success then st\<lparr>n_regul := n_regul st + 1\<rparr>
      else
        (let st1 = st\<lparr>direction_buffer := solve_result lu (lambda st)\<rparr>
         in if solve_info lu (lambda st) \<noteq> Success then st1\<lparr>n_regul := n_regul st1 + 1\<rparr>
            else st1))"

definition regularization_strength :: "SolverConfig \<Rightarrow> nat \<Rightarrow> real" where
  \<comment> \<open>\<^verbatim>\<open>std::pow(n_regul * reg_step_size, config.regularization_damping_factor)\<close> with
      \<^verbatim>\<open>reg_step_size = 1. / config.max_regularization_attempts\<close>\<close>
  "regularization_strength config n =
     std_pow (real n * (1 / real (max_regularization_attempts config)))
             (regularization_damping_factor config)"

partial_function (option) regularization_loop ::
  "SolverConfig \<Rightarrow> 'd SparseLU \<Rightarrow> 'd direction_state \<Rightarrow> 'd direction_state option" where
  "regularization_loop config lu st =
     (if n_regul st \<le> max_regularization_attempts config then
        regularization_loop config lu
          (factorize_and_solve lu (st\<lparr>lambda := regularization_strength config (n_regul st)\<rparr>))
      else Some st)"

definition newton_direction ::
  "SolverConfig \<Rightarrow> 'd SparseLU \<Rightarrow> 'd \<Rightarrow> 'd direction_state option" where
  \<comment> \<open>the block \<^verbatim>\<open>REGULARIZED NEWTON DIRECTION\<close> of \<^verbatim>\<open>Solver::maximize\<close>; \<open>d0\<close> is what
      the direction buffer held before. \<open>None\<close>: the block does not return\<close>
  "newton_direction config lu d0 =
     (let st = factorize_and_solve lu \<lparr>n_regul = 0, lambda = 0, direction_buffer = d0\<rparr>
      in if n_regul st > 0 then regularization_loop config lu st else Some st)"

subsection \<open>Committing the step of the line search\<close>

record objectives =
  objective_old :: real
  objective_new :: real

definition brent_tol :: "SolverConfig \<Rightarrow> real \<Rightarrow> real \<Rightarrow> real" where
  \<comment> \<open>\<^verbatim>\<open>fmin(objective_tolerance * brent_tolerance_factor, brent_width * brent_width)\<close>\<close>
  "brent_tol config brent_left brent_right =
     (let brent_width = brent_right - brent_left
      in min (objective_tolerance config * brent_tolerance_factor config)
             (brent_width * brent_width))"

definition commit_step ::
  "SolverConfig \<Rightarrow> real \<Rightarrow> real \<Rightarrow> real \<Rightarrow> objectives \<Rightarrow> error + objectives" where
  \<comment> \<open>from \<^verbatim>\<open>Did we decrease the objective ?\<close> to the update of the two objectives;
      \<open>brent_out_objective\<close> is the objective the line search selected on the interval
      \<open>[brent_left, brent_right]\<close>\<close>
  "commit_step config brent_left brent_right brent_out_objective st =
     (if brent_out_objective < objective_new st - brent_tol config brent_left brent_right
      then Inl BacktrackingFailure
      else Inr \<lparr>objective_old = objective_new st, objective_new = brent_out_objective\<rparr>)"

section \<open>Notions used to state the results\<close>

definition attempt_ok :: "SolverConfig \<Rightarrow> 'd SparseLU \<Rightarrow> nat \<Rightarrow> bool" where
  \<comment> \<open>the regularised attempt with \<^verbatim>\<open>n_regul = n\<close> factorises and solves\<close>
  "attempt_ok config lu n =
     (factorize_info lu (regularization_strength config n) = Success \<and>
      solve_info lu (regularization_strength config n) = Success)"

text \<open>
  Two tapes over one input \<open>x\<close>, as recorded by \<^verbatim>\<open>Spy x(x0, tape); Spy y(x);\<close> followed
  by \<^verbatim>\<open>x / y\<close> and by \<^verbatim>\<open>x * y\<close>: slot 0 is \<open>x\<close>, slot 1 its copy, slot 2 the objective.
\<close>

definition quotient_by_copy :: "real \<Rightarrow> Tape" where
  "quotient_by_copy x =
     \<lparr>n_input_size = 1, n_trace_size = 3,
      operations = [IdentityScalar 0 1, DivideScalarScalar_tt 0 1 2],
      initial_values = [x]\<rparr>"

definition product_by_copy :: "real \<Rightarrow> Tape" where
  "product_by_copy x =
     \<lparr>n_input_size = 1, n_trace_size = 3,
      operations = [IdentityScalar 0 1, MultiplyScalarScalar_tt 0 1 2],
      initial_values = [x]\<rparr>"

text \<open>
  Two tapes over one input \<open>x\<close> that hold a rewritten square. The first is recorded by
  \<^verbatim>\<open>Spy x(x0, tape); Spy y(x); pow(x / y, 2.)\<close>: slot 1 is the copy, slot 2 the
  quotient and slot 3 its square. The second is recorded by
  \<^verbatim>\<open>Spy x(x0, tape); pow(x, 2.) / x\<close>: slot 1 is the square and slot 2 the quotient.
\<close>

definition squared_quotient_by_copy :: "real \<Rightarrow> Tape" where
  "squared_quotient_by_copy x =
     \<lparr>n_input_size = 1, n_trace_size = 4,
      operations = [IdentityScalar 0 1, DivideScalarScalar_tt 0 1 2, SquareScalar 2 3],
      initial_values = [x]\<rparr>"

definition square_over_input :: "real \<Rightarrow> Tape" where
  "square_over_input x =
     \<lparr>n_input_size = 1, n_trace_size = 3,
      operations = [SquareScalar 0 1, DivideScalarScalar_tt 1 0 2],
      initial_values = [x]\<rparr>"

text \<open>
  The tape of \<^verbatim>\<open>Spy v({x, y}, tape); pow(v, 2.)\<close>, a rewritten square in its vector
  form: slots 0 and 1 are the input, slots 2 and 3 the squares.
\<close>

definition squared_vector :: "real \<Rightarrow> real \<Rightarrow> Tape" where
  "squared_vector x y =
     \<lparr>n_input_size = 2, n_trace_size = 4, operations = [SquareVector (0, 2) (2, 4)],
      initial_values = [x, y]\<rparr>"

text \<open>
  The expressions the recorder rewrites: \<open>a - a\<close>, \<open>a / a\<close>, \<open>a^0\<close>, \<open>a^1\<close>, \<open>a^2\<close>,
  \<open>a^3\<close>, \<open>1 / a\<close> and \<open>a + a\<close>. \<open>record_rewrite\<close> is the overload call each one
  compiles to. The others are the reading of the specification: \<open>unary_scalar\<close> and
  \<open>unary_vector\<close> name the specialisation it lists for the expression;
  \<open>expression\<close> is the expression as written, a function of the value of \<open>a\<close>,
  defined away from zero for the two quotients; \<open>symbolic\<close> is its symbolic
  equivalent (\<open>0\<close>, \<open>1\<close>, \<open>1\<close>, \<open>a\<close>, \<open>a\<^sup>2\<close>, \<open>a\<^sup>3\<close>, \<open>1 / a\<close>, \<open>2 a\<close>), with its first and
  second derivative. \<open>1 / a\<close> is infinite at zero, outside the finite values
  modelled here.
\<close>

datatype rewrite =
  SelfMinus | SelfDivide | PowerZero | PowerOne | PowerTwo | PowerThree | OneOver | SelfPlus

fun record_rewrite :: "rewrite \<Rightarrow> Spy \<Rightarrow> Tape \<Rightarrow> error + Spy \<times> Tape" where
  "record_rewrite SelfMinus a t = spy_minus a a t"
| "record_rewrite SelfDivide a t = spy_divide a a t"
| "record_rewrite PowerZero a t = spy_pow a (Tensor_of_double 0) t"
| "record_rewrite PowerOne a t = spy_pow a (Tensor_of_double 1) t"
| "record_rewrite PowerTwo a t = spy_pow a (Tensor_of_double 2) t"
| "record_rewrite PowerThree a t = spy_pow a (Tensor_of_double 3) t"
| "record_rewrite OneOver a t = tensor_divide_spy (Tensor_of_double 1) a t"
| "record_rewrite SelfPlus a t = spy_plus a a t"

fun unary_scalar :: "rewrite \<Rightarrow> nat \<Rightarrow> nat \<Rightarrow> OpVariant" where
  "unary_scalar SelfMinus = TrivialScalar 0"
| "unary_scalar SelfDivide = TrivialScalar 1"
| "unary_scalar PowerZero = TrivialScalar 1"
| "unary_scalar PowerOne = IdentityScalar"
| "unary_scalar PowerTwo = SquareScalar"
| "unary_scalar PowerThree = CubeScalar"
| "unary_scalar OneOver = InvertScalar"
| "unary_scalar SelfPlus = (\<lambda>a. MultiplyScalarScalar_tf a 2)"

fun unary_vector :: "rewrite \<Rightarrow> IndexRange \<Rightarrow> IndexRange \<Rightarrow> OpVariant" where
  "unary_vector SelfMinus = TrivialVector 0"
| "unary_vector SelfDivide = TrivialVector 1"
| "unary_vector PowerZero = TrivialVector 1"
| "unary_vector PowerOne = IdentityVector"
| "unary_vector PowerTwo = SquareVector"
| "unary_vector PowerThree = CubeVector"
| "unary_vector OneOver = InvertVector"
| "unary_vector SelfPlus = (\<lambda>a. MultiplyVectorScalar_tf a 2)"

definition specialization :: "rewrite \<Rightarrow> Spy \<Rightarrow> Tape \<Rightarrow> OpVariant" where
  \<comment> \<open>the specialisation on the operand \<open>a\<close>, writing to fresh slots at the end of the
      trace of \<open>t\<close>\<close>
  "specialization rw a t =
     (if is_scalar a then unary_scalar rw (tape_begin a) (n_trace_size t)
      else unary_vector rw (tape_begin a, tape_end a)
             (n_trace_size t, n_trace_size t + length (val a)))"

fun expression :: "rewrite \<Rightarrow> real \<Rightarrow> real" where
  "expression SelfMinus a = a - a"
| "expression SelfDivide a = a / a"
| "expression PowerZero a = a ^ 0"
| "expression PowerOne a = a ^ 1"
| "expression PowerTwo a = a ^ 2"
| "expression PowerThree a = a ^ 3"
| "expression OneOver a = 1 / a"
| "expression SelfPlus a = a + a"

fun defined_at :: "rewrite \<Rightarrow> real \<Rightarrow> bool" where
  "defined_at SelfDivide a = (a \<noteq> 0)"
| "defined_at OneOver a = (a \<noteq> 0)"
| "defined_at rw a = True"

fun symbolic :: "rewrite \<Rightarrow> real \<Rightarrow> real" where
  "symbolic SelfMinus a = 0"
| "symbolic SelfDivide a = 1"
| "symbolic PowerZero a = 1"
| "symbolic PowerOne a = a"
| "symbolic PowerTwo a = a ^ 2"
| "symbolic PowerThree a = a ^ 3"
| "symbolic OneOver a = 1 / a"
| "symbolic SelfPlus a = 2 * a"

fun symbolic_gradient :: "rewrite \<Rightarrow> real \<Rightarrow> real" where
  "symbolic_gradient SelfMinus a = 0"
| "symbolic_gradient SelfDivide a = 0"
| "symbolic_gradient PowerZero a = 0"
| "symbolic_gradient PowerOne a = 1"
| "symbolic_gradient PowerTwo a = 2 * a"
| "symbolic_gradient PowerThree a = 3 * a ^ 2"
| "symbolic_gradient OneOver a = - 1 / a ^ 2"
| "symbolic_gradient SelfPlus a = 2"

fun symbolic_hessian :: "rewrite \<Rightarrow> real \<Rightarrow> real" where
  "symbolic_hessian SelfMinus a = 0"
| "symbolic_hessian SelfDivide a = 0"
| "symbolic_hessian PowerZero a = 0"
| "symbolic_hessian PowerOne a = 0"
| "symbolic_hessian PowerTwo a = 2"
| "symbolic_hessian PowerThree a = 6 * a"
| "symbolic_hessian OneOver a = 2 / a ^ 3"
| "symbolic_hessian SelfPlus a = 0"

fun finite_at :: "rewrite \<Rightarrow> real \<Rightarrow> bool" where
  "finite_at OneOver a = (a \<noteq> 0)"
| "finite_at rw a = True"

definition recorded_tape :: "rewrite \<Rightarrow> real \<Rightarrow> error + Tape" where
  \<comment> \<open>the tape after declaring one scalar input with the value \<open>x\<close> on a new tape and
      recording the expression on it\<close>
  "recorded_tape rw x =
     (case Spy_input (Tensor_of_double x) (Tape_new 0) of
        Inl e \<Rightarrow> Inl e
      | Inr (a, t) \<Rightarrow> map_sum id snd (record_rewrite rw a t))"

definition specialized_tape :: "rewrite \<Rightarrow> real \<Rightarrow> Tape" where
  \<comment> \<open>one scalar input \<open>x\<close> in slot 0 and the specialisation of the expression from
      slot 0 to slot 1\<close>
  "specialized_tape rw x =
     \<lparr>n_input_size = 1, n_trace_size = 2, operations = [unary_scalar rw 0 1],
      initial_values = [x]\<rparr>"

section \<open>Facts about the map operations\<close>

lemma map_of_insort_fresh:
  "map_of m k = None \<Longrightarrow> map_of (insort_key fst (k, v) m) = (map_of m)(k \<mapsto> v)"
  by (induction m) (auto simp: fun_upd_twist split: if_splits)

lemma map_of_map_insert:
  "map_of (map_insert k v m) = (if map_of m k = None then (map_of m)(k \<mapsto> v) else map_of m)"
  by (simp add: map_insert_def map_of_insort_fresh)

lemma map_of_map_erase: "map_of (map_erase k m) = (map_of m)(k := None)"
  by (induction m) (auto simp: map_erase_def)

lemma map_of_map_put:
  "map_of (map_put k v m) = (if map_of m k = None then map_of m else (map_of m)(k \<mapsto> v))"
  by (induction m) (auto simp: map_put_def)

lemma map_erase_Nil: "map_erase k y = [] \<Longrightarrow> b \<noteq> k \<Longrightarrow> map_of y b = None"
  using map_of_map_erase [of k y] by (metis fun_upd_other map_of.simps(1))

lemma map_erase_empty: "map_erase k [] = []"
  by (simp add: map_erase_def)

section \<open>Facts about the sparse symmetric matrix\<close>

text \<open>What each operation does to the stored elements.\<close>

lemma entry_map_put:
  "entry (map_put a r m) i j = (if i = a \<and> map_of m a \<noteq> None then map_of r j else entry m i j)"
  by (auto simp: entry_def map_of_map_put split: option.splits)

lemma entry_map_erase:
  "entry (map_erase a m) i j = (if i = a then None else entry m i j)"
  by (auto simp: entry_def map_of_map_erase split: option.splits)

lemma entry_map_insert_empty: "entry (map_insert a [] m) i j = entry m i j"
  by (auto simp: entry_def map_of_map_insert split: option.splits)

lemma row_at_map_of: "map_of (row_at m i) j = entry m i j"
  by (simp add: row_at_def entry_def split: option.splits)

lemma read_entry: "read m i j = (case entry m i j of None \<Rightarrow> 0 | Some v \<Rightarrow> v)"
  by (simp add: read_def entry_def split: option.splits)

lemma entry_prepare_write:
  "entry (snd (prepare_write (r, m))) a b =
     (if ((a = ref_i r \<and> b = ref_j r) \<or> (a = ref_j r \<and> b = ref_i r)) \<and> entry m a b = None
      then Some 0 else entry m a b)"
  by (auto simp: prepare_write_def Let_def entry_map_put entry_map_insert_empty row_at_map_of
      map_of_map_insert split: option.splits)

lemma fst_prepare_write: "fst (prepare_write (r, m)) = r\<lparr>is_valid_ij := True\<rparr>"
  by (simp add: prepare_write_def Let_def)

lemma entry_cell_add:
  "entry (cell_add i j x m) a b =
     (if a = i \<and> b = j \<and> entry m i j \<noteq> None then Some (read m i j + x) else entry m a b)"
  apply (auto simp: cell_add_def entry_map_put row_at_map_of map_of_map_put)
  apply (auto simp: entry_def split: option.splits)
  done

lemma entry_cell_set:
  "entry (cell_set i j x m) a b =
     (if a = i \<and> b = j \<and> entry m i j \<noteq> None then Some x else entry m a b)"
  apply (auto simp: cell_set_def entry_map_put row_at_map_of map_of_map_put)
  apply (auto simp: entry_def split: option.splits)
  done

lemma entry_erase_in_row:
  "entry (erase_in_row i j m) a b = (if a = i \<and> b = j then None else entry m a b)"
proof (cases "map_of m i")
  case None
  then show ?thesis
    by (auto simp: erase_in_row_def entry_def row_at_def map_of_map_erase map_erase_empty)
next
  case (Some row)
  then show ?thesis
    by (auto simp: erase_in_row_def Let_def entry_def row_at_def map_of_map_erase map_of_map_put
        dest: map_erase_Nil split: option.splits)
qed

lemma entry_set_zero:
  "is_valid_ij r \<Longrightarrow> entry (snd (set_zero (r, m))) a b =
     (if (a = ref_i r \<and> b = ref_j r) \<or> (a = ref_j r \<and> b = ref_i r) then None else entry m a b)"
  by (simp add: set_zero_def Let_def entry_erase_in_row)

lemma entry_erase_step:
  "entry (erase_step i m j) a b = (if a = j \<and> b = i \<and> j \<noteq> i then None else entry m a b)"
  by (auto simp: erase_step_def entry_erase_in_row split: option.splits) (simp add: entry_def)

lemma entry_foldl_erase_step:
  "entry (foldl (erase_step i) m js) a b =
     (if a \<in> set js \<and> b = i \<and> a \<noteq> i then None else entry m a b)"
  by (induction js arbitrary: m) (auto simp: entry_erase_step)

lemma entry_erase:
  assumes "symmetric m"
  shows "entry (erase i m) a b = (if a = i \<or> b = i then None else entry m a b)"
proof (cases "map_of m i")
  case None
  then have row: "entry m i c = None" for c by (simp add: entry_def)
  with assms have "entry m c i = None" for c by (simp add: symmetric_def)
  with None row show ?thesis by (auto simp: erase_def)
next
  case (Some row)
  have col: "entry m c i = None" if "c \<notin> set (map fst row)" for c
  proof -
    from that have "map_of row c = None" by (simp add: map_of_eq_None_iff)
    with Some have "entry m i c = None" by (simp add: entry_def)
    with assms show ?thesis by (simp add: symmetric_def)
  qed
  show ?thesis
  proof (cases "a \<in> set (map fst row)")
    case True
    with Some show ?thesis
      by (auto simp: erase_def entry_map_erase entry_foldl_erase_step)
  next
    case False
    with Some col [OF False] show ?thesis
      by (auto simp: erase_def entry_map_erase entry_foldl_erase_step)
  qed
qed

text \<open>
  The assertion in the loop of \<^verbatim>\<open>erase(i)\<close>: in a symmetric matrix every key of row
  \<open>i\<close> has a row of its own.
\<close>

lemma erase_assert:
  assumes "symmetric m" and "map_of m i = Some row_i" and "j \<in> set (map fst row_i)"
  shows "map_of m j \<noteq> None"
proof -
  from assms(3) have "map_of row_i j \<noteq> None" by (simp add: map_of_eq_None_iff)
  with assms(2) have "entry m i j \<noteq> None" by (simp add: entry_def)
  with assms(1) have "entry m j i \<noteq> None" by (simp add: symmetric_def)
  then show ?thesis by (auto simp: entry_def split: option.splits)
qed

text \<open>Every operation keeps the matrix symmetric.\<close>

lemma symmetric_empty: "symmetric []"
  by (simp add: symmetric_def entry_def)

lemma symmetric_erase: "symmetric m \<Longrightarrow> symmetric (erase i m)"
  unfolding symmetric_def
proof (intro allI)
  fix a b assume s: "\<forall>i j. entry m i j = entry m j i"
  then have "symmetric m" by (simp add: symmetric_def)
  from entry_erase [OF this, of i a b] entry_erase [OF this, of i b a] s
  show "entry (erase i m) a b = entry (erase i m) b a" by auto
qed

lemma symmetric_set_zero: "symmetric m \<Longrightarrow> symmetric (snd (set_zero (r, m)))"
  by (cases "is_valid_ij r") (auto simp: symmetric_def entry_set_zero, simp add: set_zero_def Let_def)

lemma symmetric_plus_assign: "symmetric m \<Longrightarrow> symmetric (snd (plus_assign x (r, m)))"
  by (auto simp: plus_assign_def Let_def symmetric_def entry_cell_add fst_prepare_write
      read_entry entry_prepare_write)

lemma symmetric_assign: "symmetric m \<Longrightarrow> symmetric (snd (assign x (r, m)))"
  apply (auto simp: assign_def Let_def symmetric_set_zero)
  apply (auto simp: symmetric_def entry_cell_set fst_prepare_write entry_prepare_write)
  done

lemma symmetric_add_to: "symmetric m \<Longrightarrow> symmetric (add_to i j x m)"
  by (simp add: add_to_def symmetric_plus_assign)

lemma symmetric_apply_write: "symmetric (snd s) \<Longrightarrow> symmetric (snd (apply_write s w))"
  by (cases w; cases s) (simp_all add: symmetric_plus_assign symmetric_assign)

lemma symmetric_foldl_apply_write:
  "symmetric (snd s) \<Longrightarrow> symmetric (snd (foldl apply_write s ws))"
  by (induction ws arbitrary: s) (simp_all add: symmetric_apply_write)

lemma symmetric_apply_mat_op: "symmetric m \<Longrightarrow> symmetric (apply_mat_op m x)"
  by (cases x) (simp_all add: symmetric_foldl_apply_write symmetric_erase)

lemma symmetric_run_ops: "symmetric m \<Longrightarrow> symmetric (run_ops ops m)"
  unfolding run_ops_def by (induction ops arbitrary: m) (simp_all add: symmetric_apply_mat_op)

text \<open>A loop that only applies symmetry-preserving steps preserves symmetry.\<close>

lemma symmetric_foldl:
  assumes "\<And>m x. symmetric m \<Longrightarrow> symmetric (f m x)" and "symmetric m"
  shows "symmetric (foldl f m xs)"
  using assms(2) by (induction xs arbitrary: m) (simp_all add: assms(1))

lemma prepared_entries:
  "entry (snd (prepare_write (get i j, m))) i j \<noteq> None \<and>
   entry (snd (prepare_write (get i j, m))) j i \<noteq> None"
  by (simp add: entry_prepare_write get_def)

lemma assign_nonzero_unfold:
  "x \<noteq> 0 \<Longrightarrow> snd (assign x (get i j, m)) =
     (if j = i then cell_set i j x (snd (prepare_write (get i j, m)))
      else cell_set j i x (cell_set i j x (snd (prepare_write (get i j, m)))))"
  by (simp add: assign_def Let_def fst_prepare_write) (simp add: get_def)

lemma entry_assign_nonzero:
  assumes "x \<noteq> 0"
  shows "entry (snd (assign x (get i j, m))) a b =
     (if (a = i \<and> b = j) \<or> (a = j \<and> b = i) then Some x else entry m a b)"
proof -
  let ?p = "snd (prepare_write (get i j, m))"
  have p: "entry ?p c d =
      (if ((c = i \<and> d = j) \<or> (c = j \<and> d = i)) \<and> entry m c d = None then Some 0 else entry m c d)"
    for c d by (simp add: entry_prepare_write get_def)
  have ij: "entry ?p i j \<noteq> None" and ji: "entry ?p j i \<noteq> None"
    using prepared_entries [of i j m] by simp_all
  show ?thesis
  proof (cases "j = i")
    case True
    with assms ij p [of a b] show ?thesis
      by (simp add: assign_nonzero_unfold entry_cell_set)
  next
    case False
    have "entry (cell_set i j x ?p) j i \<noteq> None"
      using ji False by (simp add: entry_cell_set)
    with assms ij False show ?thesis
      by (auto simp: assign_nonzero_unfold entry_cell_set p)
  qed
qed

lemma add_to_unfold:
  "x \<noteq> 0 \<Longrightarrow> add_to i j x m =
     (if j = i then cell_add i j x (snd (prepare_write (get i j, m)))
      else cell_add j i x (cell_add i j x (snd (prepare_write (get i j, m)))))"
  by (simp add: add_to_def plus_assign_def Let_def fst_prepare_write) (simp add: get_def)

lemma entry_add_to:
  assumes "x \<noteq> 0"
  shows "entry (add_to i j x m) a b =
     (if (a = i \<and> b = j) \<or> (a = j \<and> b = i) then Some (read m a b + x) else entry m a b)"
proof -
  let ?p = "snd (prepare_write (get i j, m))"
  have p: "entry ?p c d =
      (if ((c = i \<and> d = j) \<or> (c = j \<and> d = i)) \<and> entry m c d = None then Some 0 else entry m c d)"
    for c d by (simp add: entry_prepare_write get_def)
  have rp: "read ?p c d = read m c d" for c d
    by (simp add: read_entry p split: option.splits)
  have ij: "entry ?p i j \<noteq> None" and ji: "entry ?p j i \<noteq> None"
    using prepared_entries [of i j m] by simp_all
  show ?thesis
  proof (cases "j = i")
    case True
    with assms ij p [of a b] rp [of i j] show ?thesis
      by (simp add: add_to_unfold entry_cell_add)
  next
    case False
    have e: "entry (cell_add i j x ?p) j i \<noteq> None"
      using ji False by (simp add: entry_cell_add)
    have r: "read (cell_add i j x ?p) j i = read m j i"
      using False by (simp add: read_entry entry_cell_add p split: option.splits)
    from assms ij False e r show ?thesis
      by (auto simp: add_to_unfold entry_cell_add p rp)
  qed
qed

lemma add_to_zero: "add_to i j 0 m = m"
  by (simp add: add_to_def plus_assign_def)

text \<open>Writing zero through a reference that has not written before changes nothing.\<close>

lemma assign_zero_fresh: "assign 0 (get i j, m) = (get i j, m)"
  by (simp add: assign_def set_zero_def get_def)

text \<open>
  \<^bold>\<open>Claim C9\<close>, on the element reference. Reading an absent element gives 0
  (\<open>read_entry\<close>), and a nonzero write or accumulation sets both \<open>(i, j)\<close> and
  \<open>(j, i)\<close> (\<open>entry_assign_nonzero\<close>, \<open>entry_add_to\<close>). Writing zero does not remove a
  stored element: \<^verbatim>\<open>set_zero\<close> returns at once unless this very reference has
  written a nonzero value before, and the reference that \<^verbatim>\<open>get(i, j)\<close> returns has
  not. Below, \<^verbatim>\<open>m.get(0, 0) = 0.0\<close> on a matrix holding \<open>5\<close> at \<open>(0, 0)\<close> leaves the
  \<open>5\<close>, and \<^verbatim>\<open>m.get(0, 1) = 0.0\<close> leaves both off-diagonal elements.
\<close>

theorem assign_zero_keeps_entry:
  "read (snd (assign 0 (get 0 0, [(0, [(0, 5)])]))) 0 0 = 5 \<and>
   snd (assign 0 (get 0 1, [(0, [(1, 3)]), (1, [(0, 3)])])) = [(0, [(1, 3)]), (1, [(0, 3)])]"
  by (simp add: assign_zero_fresh read_def)

section \<open>Symmetry of the Hessian\<close>

lemma symmetric_foldl_snd:
  assumes "\<And>s x. symmetric (snd s) \<Longrightarrow> symmetric (snd (f s x))" and "symmetric (snd s)"
  shows "symmetric (snd (foldl f s xs))"
  using assms(2) by (induction xs arbitrary: s) (simp_all add: assms(1))

lemma symmetric_pushing_part_1:
  "symmetric m \<Longrightarrow> symmetric (pushing_part_1 operation v i_local i r m)"
  unfolding pushing_part_1_def
  by (rule symmetric_foldl) (auto simp: Let_def symmetric_add_to intro!: symmetric_foldl)

lemma symmetric_pushing_part_2:
  "symmetric m \<Longrightarrow> symmetric (pushing_part_2 operation v i_local i m)"
  unfolding pushing_part_2_def
  by (auto simp: Let_def symmetric_add_to split: option.splits intro!: symmetric_foldl)

lemma symmetric_creating_part_unary:
  "symmetric m \<Longrightarrow> symmetric (creating_part_unary operation v w i_local j_local m)"
  by (simp add: creating_part_unary_def Let_def symmetric_add_to)

lemma symmetric_creating_part_binary:
  "symmetric m \<Longrightarrow> symmetric (creating_part_binary operation v w i_local j_local k_local m)"
  by (simp add: creating_part_binary_def Let_def symmetric_add_to)

lemma symmetric_creating_part:
  "symmetric m \<Longrightarrow> symmetric (creating_part operation v w i_local m)"
  unfolding creating_part_def
  by (auto simp: Let_def symmetric_add_to symmetric_creating_part_unary
      symmetric_creating_part_binary intro!: symmetric_foldl)

lemma symmetric_reverse_output:
  "symmetric (snd s) \<Longrightarrow> symmetric (snd (reverse_output operation v s i_local))"
  by (auto simp: reverse_output_def Let_def symmetric_pushing_part_1 symmetric_pushing_part_2
      symmetric_creating_part symmetric_erase split: option.splits)

lemma symmetric_OpVariantReverse:
  "symmetric (snd s) \<Longrightarrow> symmetric (snd (OpVariantReverse operation v s))"
  unfolding OpVariantReverse_def by (rule symmetric_foldl_snd) (simp_all add: symmetric_reverse_output)

lemma symmetric_play_reverse: "symmetric (matrix (hessian (play_reverse t tr)))"
  unfolding play_reverse_def Let_def
  by (simp, rule symmetric_foldl_snd) (simp_all add: symmetric_OpVariantReverse symmetric_empty)

text \<open>
  \<^bold>\<open>Claim C2\<close>. Start from the empty matrix of a new \<^verbatim>\<open>SparseSymMat\<close> and apply any
  sequence of operations, each either \<^verbatim>\<open>erase(i)\<close> or a run of \<^verbatim>\<open>+=\<close> and \<^verbatim>\<open>=\<close> through
  one reference obtained from \<^verbatim>\<open>get(i, j)\<close>. In the matrix reached, the element
  \<open>(i, j)\<close> is stored exactly when \<open>(j, i)\<close> is, and the two hold the same value:
  \<open>entry\<close> gives the same answer at both positions. Every intermediate matrix is
  reached by a sequence of its own, so this holds at every point. The same holds
  for the Hessian of a trace after \<^verbatim>\<open>play_reverse\<close>, on any tape and from any trace.
\<close>

theorem hessian_symmetry:
  "(\<forall>i j. entry (run_ops ops []) i j = entry (run_ops ops []) j i) \<and>
   (\<forall>i j. entry (matrix (hessian (play_reverse t tr))) i j =
          entry (matrix (hessian (play_reverse t tr))) j i)"
  using symmetric_run_ops [OF symmetric_empty, of ops] symmetric_play_reverse [of t tr]
  by (simp add: symmetric_def)

section \<open>Declaring and copying variable handles\<close>

text \<open>
  \<^bold>\<open>Claim C7\<close>. Declaring an input \<^verbatim>\<open>Spy(initial_value, tape)\<close> fails exactly when the
  tape holds a recorded operator, and then with the declaration-after-recording
  error. When it succeeds, the new handle starts at the tape's former
  \<^verbatim>\<open>n_input_size\<close> and carries the tensor's shape and values; \<^verbatim>\<open>n_input_size\<close> and
  \<^verbatim>\<open>n_trace_size\<close> have both grown by the number of values; \<^verbatim>\<open>initial_values\<close> has the
  values appended in order; the operator list is as before.
\<close>

theorem input_declaration:
  "((\<exists>e. Spy_input tensor t = Inl e) = (operations t \<noteq> [])) \<and>
   (case Spy_input tensor t of
      Inl e \<Rightarrow> e = DeclarationAfterRecording
    | Inr (s, t') \<Rightarrow>
        tape_begin s = n_input_size t \<and> dim s = dim tensor \<and> val s = val tensor \<and>
        n_input_size t' = n_input_size t + length (val tensor) \<and>
        n_trace_size t' = n_trace_size t + length (val tensor) \<and>
        initial_values t' = initial_values t @ val tensor \<and>
        operations t' = operations t)"
  by (simp add: Spy_input_def Let_def Spy_at_def tape_begin_def input_size_def)

text \<open>
  \<^bold>\<open>Claim C10\<close>. Copying a handle \<open>s\<close> whose value vector has the length its shape
  announces appends exactly one operator to the tape: \<^verbatim>\<open>IdentityScalar\<close> from the
  slot of \<open>s\<close> when \<open>s\<close> is a scalar, \<^verbatim>\<open>IdentityVector\<close> from its range otherwise, with
  the fresh slots at the end of the trace as output. \<^verbatim>\<open>n_trace_size\<close> grows by the
  size of \<open>s\<close>, the copy's range is the operator's output range, its shape and
  value are those of \<open>s\<close>, and the operators recorded before, the input size and the
  initial values stay as they were. (\<open>s\<close> is passed by value and returned nowhere:
  it cannot change.)
\<close>

theorem copy_records_identity:
  assumes "length (val s) = tensor_size s"
  shows "(case Spy_copy s t of (s', t') \<Rightarrow>
      operations t' = operations t @
        [if is_scalar s then IdentityScalar (tape_begin s) (n_trace_size t)
         else IdentityVector (tape_begin s, tape_end s)
                (n_trace_size t, n_trace_size t + tensor_size s)] \<and>
      n_trace_size t' = n_trace_size t + tensor_size s \<and>
      tape_begin s' = n_trace_size t \<and> tape_end s' = n_trace_size t' \<and>
      dim s' = dim s \<and> val s' = val s \<and>
      n_input_size t' = n_input_size t \<and> initial_values t' = initial_values t)"
  using assms
  by (simp add: Spy_copy_def Let_def Spy_at_def rec_scalar_def rec_range_def op_register_def
      trace_size_def tape_begin_def tape_end_def as_Range_def range_size_def is_scalar_def
      tensor_size_def)

theorem copy_records_identity_witness:
  "length (val (Spy_at (Tensor_of_double 7) 0)) = tensor_size (Spy_at (Tensor_of_double 7) 0) \<and>
   Spy_copy (Spy_at (Tensor_of_double 7) 0) (Tape_new 1) =
     (Spy_at (Tensor_of_double 7) 1,
      \<lparr>n_input_size = 1, n_trace_size = 2, operations = [IdentityScalar 0 1],
       initial_values = []\<rparr>)"
proof -
  have h: "length (val (Spy_at (Tensor_of_double 7) 0)) = tensor_size (Spy_at (Tensor_of_double 7) 0)"
    by (simp add: Spy_at_def Tensor_of_double_def tensor_size_def product_def)
  show ?thesis
    using h copy_records_identity [OF h, of "Tape_new 1"]
    by (simp add: Spy_copy_def Let_def Spy_at_def rec_scalar_def rec_range_def op_register_def
      trace_size_def tape_begin_def tape_end_def as_Range_def range_size_def is_scalar_def
      tensor_size_def Tensor_of_double_def product_def Tape_new_def)
qed

section \<open>The working matrix of the solver\<close>

text \<open>What the constructor stores for a row, fixed or free.\<close>

lemma triplets_of_matrix:
  "set (triplets (EigenSparseMat_new h fixed_indices)) =
     (\<Union>row \<in> set (matrix h). set (row_triplets fixed_indices row))"
  by (simp add: EigenSparseMat_new_def)

lemma row_triplets_fixed:
  "fst row \<in> set fixed_indices \<Longrightarrow>
     set (row_triplets fixed_indices row) = {(fst row, fst row, - 1)}"
  by (auto simp: row_triplets_def Let_def filter_empty_conv)

lemma row_triplets_free:
  "fst row \<notin> set fixed_indices \<Longrightarrow>
     row_triplets fixed_indices row = map (\<lambda>entry. (fst row, fst entry, snd entry)) (snd row)"
  by (auto simp: row_triplets_def Let_def filter_empty_conv)

text \<open>
  \<^bold>\<open>Claim C4\<close>, on the working matrix built from the Hessian and the fixed indices.
  The constructor replaces the \<^emph>\<open>row\<close> of a fixed index by a diagonal \<open>-1\<close> and copies
  every other row whole, the elements in the column of a fixed index included. For
  the Hessian \<open>((2, 3), (3, 5))\<close> with index 0 fixed, the working matrix holds \<open>3\<close>
  at \<open>(1, 0)\<close>, where the claim (and the constructor's own comment, "diagonal -1,
  off-diagonal 0") wants nothing; the row of the fixed index is as claimed.
\<close>

theorem fixed_column_survives:
  "coeff (EigenSparseMat_new \<lparr>width = 2, matrix = [(0, [(0, 2), (1, 3)]), (1, [(0, 3), (1, 5)])]\<rparr> [0]) 1 0 = 3 \<and>
   is_stored (EigenSparseMat_new \<lparr>width = 2, matrix = [(0, [(0, 2), (1, 3)]), (1, [(0, 3), (1, 5)])]\<rparr> [0]) 1 0 \<and>
   coeff (EigenSparseMat_new \<lparr>width = 2, matrix = [(0, [(0, 2), (1, 3)]), (1, [(0, 3), (1, 5)])]\<rparr> [0]) 0 1 = 0 \<and>
   coeff (EigenSparseMat_new \<lparr>width = 2, matrix = [(0, [(0, 2), (1, 3)]), (1, [(0, 3), (1, 5)])]\<rparr> [0]) 0 0 = - 1"
  by (simp add: EigenSparseMat_new_def row_triplets_def coeff_def is_stored_def Let_def)

section \<open>Committing a Newton step\<close>

text \<open>
  The claim C6 as stated, with the configured \<^verbatim>\<open>objective_tolerance\<close> as the
  tolerance, fails when \<^verbatim>\<open>brent_tolerance_factor\<close> exceeds one: with tolerance 1,
  factor 2 and the default interval \<open>[-1, 2]\<close>, an iteration that starts at the
  objective 0 commits the objective \<open>-3/2\<close>, which is below \<open>0 - 1\<close>, and raises
  nothing.
\<close>

theorem commit_tolerance_counterexample:
  "commit_step (default_config\<lparr>objective_tolerance := 1, brent_tolerance_factor := 2\<rparr>) (- 1) 2 (- 3 / 2)
      \<lparr>objective_old = - 1, objective_new = 0\<rparr>
     = Inr \<lparr>objective_old = 0, objective_new = - 3 / 2\<rparr> \<and>
   (- 3 / 2 :: real) < 0 - objective_tolerance (default_config\<lparr>objective_tolerance := 1, brent_tolerance_factor := 2\<rparr>)"
  by (simp add: commit_step_def brent_tol_def default_config_def Let_def)

text \<open>
  \<^bold>\<open>Claim C6\<close>, amended: the tolerance is the effective tolerance of the line search,
  \<^verbatim>\<open>min(objective_tolerance * brent_tolerance_factor, (right - left)^2)\<close>. The
  iteration raises the backtracking failure exactly when the objective selected by
  the line search is strictly below the iteration's starting objective minus that
  tolerance; it raises nothing else at this point; and when it commits, the
  committed objective is the selected one and is at least the previous objective
  minus that tolerance.
\<close>

theorem commit_tolerance:
  "((commit_step config brent_left brent_right b st = Inl BacktrackingFailure) =
      (b < objective_new st - brent_tol config brent_left brent_right)) \<and>
   (case commit_step config brent_left brent_right b st of
      Inl e \<Rightarrow> e = BacktrackingFailure
    | Inr st' \<Rightarrow>
        objective_old st' = objective_new st \<and> objective_new st' = b \<and>
        objective_new st' \<ge> objective_old st' - brent_tol config brent_left brent_right)"
  by (simp add: commit_step_def)

text \<open>
  With a factor of at most one (the default is one) the effective tolerance is at
  most the configured one, and the claim holds as it was stated.
\<close>

lemma commit_within_objective_tolerance:
  assumes "0 \<le> objective_tolerance config" and "brent_tolerance_factor config \<le> 1"
    and "commit_step config brent_left brent_right b st = Inr st'"
  shows "objective_new st' \<ge> objective_old st' - objective_tolerance config"
proof -
  have "brent_tol config brent_left brent_right
          \<le> objective_tolerance config * brent_tolerance_factor config"
    by (simp add: brent_tol_def Let_def)
  also have "\<dots> \<le> objective_tolerance config"
    using assms(1,2) by (simp add: mult_left_le)
  finally have "brent_tol config brent_left brent_right \<le> objective_tolerance config" .
  with assms(3) show ?thesis
    by (auto simp: commit_step_def split: if_splits)
qed

section \<open>The regularisation loop\<close>

text \<open>
  The loop returns only from a state whose attempt fails: a state that is within the
  attempt limit and whose attempt succeeds leads to a state with the same counter,
  hence the same matrix and the same success.
\<close>

lemma loop_returns_only_after_failure:
  assumes "regularization_loop config lu st = Some st'"
  shows "\<not> (n_regul st \<le> max_regularization_attempts config \<and> attempt_ok config lu (n_regul st))"
proof (rule regularization_loop.raw_induct
    [where P = "\<lambda>c l s y. \<not> (n_regul s \<le> max_regularization_attempts c \<and> attempt_ok c l (n_regul s))",
      OF _ assms])
  fix loop :: "SolverConfig \<Rightarrow> 'a SparseLU \<Rightarrow> 'a direction_state \<Rightarrow> 'a direction_state option"
    and c l s y
  assume IH: "\<And>c l s y. loop c l s = Some y \<Longrightarrow>
      \<not> (n_regul s \<le> max_regularization_attempts c \<and> attempt_ok c l (n_regul s))"
    and eq: "(if n_regul s \<le> max_regularization_attempts c
        then loop c l (factorize_and_solve l (s\<lparr>lambda := regularization_strength c (n_regul s)\<rparr>))
        else Some s) = Some y"
  show "\<not> (n_regul s \<le> max_regularization_attempts c \<and> attempt_ok c l (n_regul s))"
  proof
    assume ok: "n_regul s \<le> max_regularization_attempts c \<and> attempt_ok c l (n_regul s)"
    let ?s1 = "factorize_and_solve l (s\<lparr>lambda := regularization_strength c (n_regul s)\<rparr>)"
    from ok have n: "n_regul ?s1 = n_regul s"
      by (simp add: attempt_ok_def factorize_and_solve_def Let_def)
    from ok eq have "loop c l ?s1 = Some y" by simp
    from IH [OF this] ok n show False by simp
  qed
qed

lemma loop_diverges:
  "n_regul st \<le> max_regularization_attempts config \<Longrightarrow> attempt_ok config lu (n_regul st) \<Longrightarrow>
     regularization_loop config lu st = None"
  using loop_returns_only_after_failure [of config lu st] by (cases "regularization_loop config lu st") auto

text \<open>When every remaining attempt fails, the loop does return, one past the limit.\<close>

lemma loop_returns_when_all_fail:
  assumes "\<forall>n. n_regul st \<le> n \<and> n \<le> max_regularization_attempts config \<longrightarrow> \<not> attempt_ok config lu n"
  shows "\<exists>st'. regularization_loop config lu st = Some st' \<and>
      n_regul st' = max (n_regul st) (max_regularization_attempts config + 1)"
  using assms
proof (induction "max_regularization_attempts config + 1 - n_regul st" arbitrary: st)
  case 0
  then have "\<not> n_regul st \<le> max_regularization_attempts config" by simp
  then show ?case by (subst regularization_loop.simps) (simp add: max_def)
next
  case (Suc k)
  let ?s1 = "factorize_and_solve lu (st\<lparr>lambda := regularization_strength config (n_regul st)\<rparr>)"
  from Suc(2) have le: "n_regul st \<le> max_regularization_attempts config" by simp
  with Suc(3) have "\<not> attempt_ok config lu (n_regul st)" by simp
  then have n: "n_regul ?s1 = n_regul st + 1"
    by (auto simp: attempt_ok_def factorize_and_solve_def Let_def)
  have "\<exists>st'. regularization_loop config lu ?s1 = Some st' \<and>
      n_regul st' = max (n_regul ?s1) (max_regularization_attempts config + 1)"
    using Suc(2) Suc(3) n by (intro Suc(1)) auto
  with le n show ?case
    by (subst regularization_loop.simps) (auto simp: max_def)
qed

lemma strength_default_1: "regularization_strength default_config 1 = 1 / 100"
  by (simp add: regularization_strength_def default_config_def std_pow_def power2_eq_square)

text \<open>
  \<^bold>\<open>Claim C3\<close>, on the Tikhonov loop of \<^verbatim>\<open>Solver::maximize\<close>. The strengths are tried in
  increasing order of \<open>n\<close>, but the loop has no exit on success: \<^verbatim>\<open>n_regul\<close> is only
  incremented when an attempt fails, and the loop condition is
  \<^verbatim>\<open>n_regul <= max_regularization_attempts\<close>. With the default configuration and a
  solver that fails on the unregularised matrix and succeeds on every regularised
  one, the first regularised attempt (\<open>\<lambda> = 1/100\<close>) succeeds and is then repeated for
  ever: the block never returns a direction.
\<close>

theorem regularization_never_returns:
  "newton_direction default_config
     \<lparr>factorize_info = (\<lambda>l. if l = 0 then NumericalIssue else Success),
      solve_info = (\<lambda>l. Success), solve_result = (\<lambda>l. [l])\<rparr> [0] = None"
proof -
  let ?lu = "\<lparr>factorize_info = (\<lambda>l::real. if l = 0 then NumericalIssue else Success),
      solve_info = (\<lambda>l::real. Success), solve_result = (\<lambda>l::real. [l])\<rparr>"
  have ok: "attempt_ok default_config ?lu 1"
    using strength_default_1 by (simp add: attempt_ok_def)
  have "regularization_loop default_config ?lu \<lparr>n_regul = 1, lambda = 0, direction_buffer = [0]\<rparr> = None"
    using ok by (intro loop_diverges) (simp_all add: default_config_def)
  then show ?thesis
    by (simp add: newton_direction_def factorize_and_solve_def Let_def)
qed

section \<open>The reverse sweep on an operand that is also live\<close>

text \<open>The two tapes are what the recorder produces, and their objectives are \<open>1\<close> and \<open>x\<^sup>2\<close>.\<close>

lemma quotient_by_copy_recorded:
  "(case Spy_input (Tensor_of_double x) (Tape_new 0) of
      Inl e \<Rightarrow> Inl e
    | Inr (a, t1) \<Rightarrow> (case Spy_copy a t1 of (b, t2) \<Rightarrow> map_sum id snd (spy_divide a b t2)))
   = Inr (quotient_by_copy x)"
  by (simp add: quotient_by_copy_def Spy_input_def Tape_new_def Tensor_of_double_def Spy_at_def input_size_def
   Spy_copy_def Let_def is_scalar_def tensor_size_def product_def rec_scalar_def op_register_def
   trace_size_def tape_begin_def spy_divide_def with_value_def tensor_op_def vec_op_def)

lemma quotient_by_copy_objective:
  "x \<noteq> 0 \<Longrightarrow> result (play_forward (quotient_by_copy x) (Trace_new (quotient_by_copy x))) = 1"
  by (simp add: quotient_by_copy_def play_forward_def Trace_new_def result_def trace_size_def eval_nat_numeral)

lemma product_by_copy_objective:
  "result (play_forward (product_by_copy x) (Trace_new (product_by_copy x))) = x * x"
  by (simp add: product_by_copy_def play_forward_def Trace_new_def result_def trace_size_def eval_nat_numeral)

text \<open>
  \<^bold>\<open>Claim C1\<close>, on the state after \<^verbatim>\<open>play()\<close>. The last value is the objective and the
  adjoints are its partial derivatives, but the Hessian is not that of the
  objective. When the reverse sweep visits the copy \<open>y = x\<close> (slot 1), the live
  element \<open>h(1, 0)\<close> is pushed to \<open>h(0, 0)\<close> through \<^verbatim>\<open>get(j, k) += didk * h(i, j)\<close>
  with \<open>j = k = 0\<close>, which adds it once; the update rule in the source's own
  comment, \<open>h(j,k) += di/dk.h(i,j) + di/dj.h(i,k)\<close>, adds it twice when \<open>j = k\<close>. So
  for \<open>x / y\<close> at \<open>x = 1\<close>, whose objective is constantly \<open>1\<close>, the sweep stores
  \<open>h(0, 0) = 1\<close> where the second derivative is \<open>0\<close>; and for \<open>x * y\<close> at \<open>x = 3\<close>,
  whose objective is \<open>x\<^sup>2\<close>, it stores \<open>1\<close> where the second derivative is \<open>2\<close>.
\<close>

theorem pushed_edge_counted_once:
  "play (quotient_by_copy 1) (Trace_new (quotient_by_copy 1)) =
     \<lparr>values' = [1, 1, 1], adjoints = [0, - 1, 1],
      hessian = \<lparr>width = 1, matrix = [(0, [(0, 1)])]\<rparr>\<rparr> \<and>
   play (product_by_copy 3) (Trace_new (product_by_copy 3)) =
     \<lparr>values' = [3, 3, 9], adjoints = [6, 3, 1],
      hessian = \<lparr>width = 1, matrix = [(0, [(0, 1)])]\<rparr>\<rparr>"
  by code_simp

section \<open>The Iverson operators\<close>

text \<open>
  An element-wise loop over a range whose outputs lie after its inputs writes, at
  each output, the function of the matching input.
\<close>

lemma map_range_steps:
  assumes "snd a \<le> fst y" and "fst y + k \<le> length v" and "k \<le> range_size a"
  shows "length (foldl (\<lambda>v i. v[range_at y i := f (v ! range_at a i)]) v [0..<k]) = length v \<and>
    (\<forall>p. foldl (\<lambda>v i. v[range_at y i := f (v ! range_at a i)]) v [0..<k] ! p =
       (if fst y \<le> p \<and> p < fst y + k then f (v ! (fst a + (p - fst y))) else v ! p))"
  using assms(2,3)
proof (induction k)
  case 0
  then show ?case by auto
next
  case (Suc k)
  let ?g = "foldl (\<lambda>v i. v[range_at y i := f (v ! range_at a i)]) v [0..<k]"
  from Suc have IH: "length ?g = length v"
    "\<And>p. ?g ! p = (if fst y \<le> p \<and> p < fst y + k then f (v ! (fst a + (p - fst y))) else v ! p)"
    by simp_all
  from Suc.prems assms(1) have lt: "fst a + k < fst y" by (simp add: range_size_def)
  then have rd: "?g ! range_at a k = v ! (fst a + k)"
    using IH(2) [of "range_at a k"] by (simp add: range_at_def)
  from Suc.prems IH(1) have inb: "range_at y k < length ?g" by (simp add: range_at_def)
  show ?case
  proof (intro conjI allI)
    show "length (foldl (\<lambda>v i. v[range_at y i := f (v ! range_at a i)]) v [0..<Suc k]) = length v"
      by (simp add: IH(1))
    fix p
    show "foldl (\<lambda>v i. v[range_at y i := f (v ! range_at a i)]) v [0..<Suc k] ! p =
       (if fst y \<le> p \<and> p < fst y + Suc k then f (v ! (fst a + (p - fst y))) else v ! p)"
    proof (cases "p = range_at y k")
      case True
      with inb rd show ?thesis by (simp add: range_at_def)
    next
      case False
      then have "p \<noteq> fst y + k" by (simp add: range_at_def)
      with False IH(2) [of p] show ?thesis by auto
    qed
  qed
qed

lemma map_range_nth:
  assumes "snd a \<le> fst y" and "fst y + range_size a \<le> length v" and "i < range_size a"
  shows "map_range f a y v ! range_at y i = f (v ! range_at a i)"
  using map_range_steps [OF assms(1) assms(2) order_refl, of f] assms(3)
  by (simp add: map_range_def range_at_def)

text \<open>
  \<^bold>\<open>Claim C8\<close>. Take any of the eight Iverson operators, scalar or vector, with its
  outputs after its inputs and inside the value vector (as the recorder places
  them). At every position of the operator, the output is \<open>1\<close> when the predicate
  of the bracket (\<open>x > 0\<close> or \<open>x \<ge> 0\<close>) holds of the input and \<open>0\<close> otherwise, for the
  linear-scale operators, and \<open>0\<close> when it holds and \<open>-\<infinity>\<close> otherwise for the log-scale
  ones; it is never a NaN, whatever the input (a NaN input fails the predicate).
  Every local first and second partial is \<open>0\<close>.
\<close>

theorem iverson_values:
  assumes "snd (iverson_in operation) \<le> fst (iverson_out operation)"
    and "fst (iverson_out operation) + range_size (iverson_in operation) \<le> length v"
    and "i < range_size (iverson_in operation)"
  shows "iverson_evaluate operation v ! range_at (iverson_out operation) i =
      (if log_scale operation
       then (if iverson_holds operation (v ! range_at (iverson_in operation) i)
             then Finite 0 else MinusInfinity)
       else (if iverson_holds operation (v ! range_at (iverson_in operation) i)
             then Finite 1 else Finite 0)) \<and>
     iverson_evaluate operation v ! range_at (iverson_out operation) i \<noteq> NaN \<and>
     iverson_partial operation v j k = Finite 0 \<and>
     iverson_partial2 operation v j k l = Finite 0"
proof (cases operation)
  case (GreaterThanZeroScalar a y)
  with assms show ?thesis
    by (simp add: range_size_def range_at_def iverson_partial_def iverson_partial2_def)
next
  case (GreaterThanZeroVector a y)
  with assms show ?thesis
    by (simp add: map_range_nth iverson_partial_def iverson_partial2_def)
next
  case (GreaterThanOrEqualZeroScalar a y)
  with assms show ?thesis
    by (simp add: range_size_def range_at_def iverson_partial_def iverson_partial2_def)
next
  case (GreaterThanOrEqualZeroVector a y)
  with assms show ?thesis
    by (simp add: map_range_nth iverson_partial_def iverson_partial2_def)
next
  case (LogGreaterThanZeroScalar a y)
  with assms show ?thesis
    by (simp add: range_size_def range_at_def iverson_partial_def iverson_partial2_def)
next
  case (LogGreaterThanZeroVector a y)
  with assms show ?thesis
    by (simp add: map_range_nth iverson_partial_def iverson_partial2_def)
next
  case (LogGreaterThanOrEqualZeroScalar a y)
  with assms show ?thesis
    by (simp add: range_size_def range_at_def iverson_partial_def iverson_partial2_def)
next
  case (LogGreaterThanOrEqualZeroVector a y)
  with assms show ?thesis
    by (simp add: map_range_nth iverson_partial_def iverson_partial2_def)
qed

theorem iverson_values_witness:
  "snd (iverson_in (LogGreaterThanZeroVector (0, 3) (3, 6))) \<le> fst (iverson_out (LogGreaterThanZeroVector (0, 3) (3, 6))) \<and>
   fst (iverson_out (LogGreaterThanZeroVector (0, 3) (3, 6))) + range_size (iverson_in (LogGreaterThanZeroVector (0, 3) (3, 6)))
      \<le> length [Finite 2, NaN, Finite 0, Finite 9, Finite 9, Finite 9] \<and>
   (1::nat) < range_size (iverson_in (LogGreaterThanZeroVector (0, 3) (3, 6))) \<and>
   iverson_evaluate (LogGreaterThanZeroVector (0, 3) (3, 6)) [Finite 2, NaN, Finite 0, Finite 9, Finite 9, Finite 9] ! 4 = MinusInfinity \<and>
   iverson_evaluate (LogGreaterThanZeroVector (0, 3) (3, 6)) [Finite 2, NaN, Finite 0, Finite 9, Finite 9, Finite 9] ! 4 \<noteq> NaN"
proof -
  let ?op = "LogGreaterThanZeroVector (0, 3) (3, 6)"
  let ?v = "[Finite 2, NaN, Finite 0, Finite 9, Finite 9, Finite 9]"
  have h1: "snd (iverson_in ?op) \<le> fst (iverson_out ?op)" by simp
  have h2: "fst (iverson_out ?op) + range_size (iverson_in ?op) \<le> length ?v"
    by (simp add: range_size_def)
  have h3: "(1::nat) < range_size (iverson_in ?op)" by (simp add: range_size_def)
  from iverson_values [OF h1 h2 h3, of 0 0 0] h1 h2 h3 show ?thesis
    by (simp add: range_at_def)
qed

section \<open>The peephole rewrites\<close>

text \<open>Playing a tape of one scalar input and one unary scalar operator on it.\<close>

lemma add_to_empty: "x \<noteq> 0 \<Longrightarrow> add_to 0 0 x [] = [(0, [(0, x)])]"
  by (simp add: add_to_def plus_assign_def get_def prepare_write_def Let_def map_insert_def
      map_put_def row_at_def cell_add_def read_def)

lemma play_single_unary:
  assumes "in_kind operation = Array1" and "op_in operation 0 = 0" and "op_out operation 0 = 1"
    and "out_size operation = 1" and "evaluate operation [x, 0] = [x, y]"
  shows "play \<lparr>n_input_size = 1, n_trace_size = 2, operations = [operation], initial_values = [x]\<rparr>
           (Trace_new \<lparr>n_input_size = 1, n_trace_size = 2, operations = [operation], initial_values = [x]\<rparr>) =
     \<lparr>values' = [x, y], adjoints = [partial operation [x, y] 0 0, 1],
      hessian = \<lparr>width = 1,
        matrix = (if HessianDiagAlwaysZero operation \<or> partial2 operation [x, y] 0 0 0 = 0 then []
                  else [(0, [(0, partial2 operation [x, y] 0 0 0)])])\<rparr>\<rparr>"
  using assms
  by (simp add: play_def play_forward_def play_reverse_def Trace_new_def trace_size_def
      input_size_def OpVariantReverse_def reverse_output_def Let_def adjoint_update_def adj_add_def
      get_row_ptr_def creating_part_def creating_part_unary_def add_to_empty eval_nat_numeral)

lemma is_scalar_double: "is_scalar (Tensor_of_double c)" "scalar (Tensor_of_double c) = c"
  by (simp_all add: is_scalar_def tensor_size_def Tensor_of_double_def product_def scalar_def)

lemma tensor_op_scalar_right: "\<exists>r. tensor_op f a (Tensor_of_double c) = Inr r"
  using is_scalar_double(1) [of c] by (simp add: tensor_op_def)

lemma tensor_op_scalar_left: "\<exists>r. tensor_op f (Tensor_of_double c) a = Inr r"
  using is_scalar_double(1) [of c] by (simp add: tensor_op_def)

lemma tensor_op_same: "\<exists>r. tensor_op f a a = Inr r"
  by (simp add: tensor_op_def)

lemma with_value_Inr: "x = Inr r \<Longrightarrow> with_value x p = Inr (Spy_at r (fst p), snd p)"
  by (simp add: with_value_def)

lemma rec_scalar_eq: "rec_scalar mk t = (n_trace_size t, op_register (mk (n_trace_size t)) t)"
  by (simp add: rec_scalar_def Let_def trace_size_def)

lemma rec_range_eq:
  "rec_range mk n t = (n_trace_size t, op_register (mk (n_trace_size t, n_trace_size t + n)) t)"
  by (simp add: rec_range_def Let_def trace_size_def)

lemma range_size_as_Range: "range_size (tape_id a, tape_end a) = length (val a)"
  by (simp add: range_size_def tape_end_def)

lemma emitted:
  "\<exists>s. record_rewrite rw a t = Inr (s, op_register (specialization rw a t) t) \<and>
        tape_begin s = n_trace_size t"
proof (cases rw)
  case SelfMinus
  then show ?thesis
    by (simp add: spy_minus_def specialization_def with_value_def rec_scalar_eq rec_range_eq
        range_size_as_Range as_Range_def Spy_at_def tape_begin_def)
next
  case SelfDivide
  then show ?thesis
    by (simp add: spy_divide_def specialization_def with_value_def rec_scalar_eq rec_range_eq
        range_size_as_Range as_Range_def Spy_at_def tape_begin_def)
next
  case PowerZero
  obtain r where "tensor_op std_pow a (Tensor_of_double 0) = Inr r"
    using tensor_op_scalar_right by blast
  with PowerZero show ?thesis
    by (simp add: spy_pow_def specialization_def with_value_def rec_scalar_eq rec_range_eq
        range_size_as_Range as_Range_def Spy_at_def tape_begin_def is_scalar_double)
next
  case PowerOne
  obtain r where "tensor_op std_pow a (Tensor_of_double 1) = Inr r"
    using tensor_op_scalar_right by blast
  with PowerOne show ?thesis
    by (simp add: spy_pow_def specialization_def with_value_def rec_scalar_eq rec_range_eq
        range_size_as_Range as_Range_def Spy_at_def tape_begin_def is_scalar_double)
next
  case PowerTwo
  obtain r where "tensor_op std_pow a (Tensor_of_double 2) = Inr r"
    using tensor_op_scalar_right by blast
  with PowerTwo show ?thesis
    by (simp add: spy_pow_def specialization_def with_value_def rec_scalar_eq rec_range_eq
        range_size_as_Range as_Range_def Spy_at_def tape_begin_def is_scalar_double)
next
  case PowerThree
  obtain r where "tensor_op std_pow a (Tensor_of_double 3) = Inr r"
    using tensor_op_scalar_right by blast
  with PowerThree show ?thesis
    by (simp add: spy_pow_def specialization_def with_value_def rec_scalar_eq rec_range_eq
        range_size_as_Range as_Range_def Spy_at_def tape_begin_def is_scalar_double)
next
  case OneOver
  obtain r where "tensor_op (/) (Tensor_of_double 1) a = Inr r"
    using tensor_op_scalar_left by blast
  with OneOver show ?thesis
    by (simp add: tensor_divide_spy_def specialization_def with_value_def rec_scalar_eq rec_range_eq
        range_size_as_Range as_Range_def Spy_at_def tape_begin_def is_scalar_double)
next
  case SelfPlus
  obtain r where "tensor_op (+) a a = Inr r"
    using tensor_op_same by blast
  with SelfPlus show ?thesis
    by (simp add: spy_plus_def specialization_def with_value_def rec_scalar_eq rec_range_eq
        range_size_as_Range as_Range_def Spy_at_def tape_begin_def)
qed

text \<open>The tape recorded for an expression over one fresh scalar input.\<close>

lemma recorded_tape_specialized: "recorded_tape rw x = Inr (specialized_tape rw x)"
proof -
  let ?a = "Spy_at (Tensor_of_double x) 0"
  let ?t = "\<lparr>n_input_size = 1, n_trace_size = 1, operations = [], initial_values = [x]\<rparr>"
  have decl: "Spy_input (Tensor_of_double x) (Tape_new 0) = Inr (?a, ?t)"
    by (simp add: Spy_input_def Tape_new_def Let_def input_size_def Spy_at_def Tensor_of_double_def)
  have sc: "is_scalar ?a"
    by (simp add: is_scalar_def tensor_size_def Spy_at_def Tensor_of_double_def product_def)
  from emitted [of rw ?a ?t] obtain s where
    "record_rewrite rw ?a ?t = Inr (s, op_register (specialization rw ?a ?t) ?t)" by blast
  moreover have "op_register (specialization rw ?a ?t) ?t = specialized_tape rw x"
    using sc by (cases rw)
      (simp_all add: specialization_def op_register_def specialized_tape_def tape_begin_def Spy_at_def)
  ultimately show ?thesis
    by (simp add: recorded_tape_def decl)
qed

lemma play_single_op:
  assumes "in_kind (mk 0 1) = Array1" and "op_in (mk 0 1) 0 = 0" and "op_out (mk 0 1) 0 = 1"
    and "out_size (mk 0 1) = 1" and "evaluate (mk 0 1) [x, 0] = [x, y]"
    and "unary_scalar rw = mk"
  shows "play (specialized_tape rw x) (Trace_new (specialized_tape rw x)) =
     \<lparr>values' = [x, y], adjoints = [partial (mk 0 1) [x, y] 0 0, 1],
      hessian = \<lparr>width = 1,
        matrix = (if HessianDiagAlwaysZero (mk 0 1) \<or> partial2 (mk 0 1) [x, y] 0 0 0 = 0 then []
                  else [(0, [(0, partial2 (mk 0 1) [x, y] 0 0 0)])])\<rparr>\<rparr>"
  unfolding specialized_tape_def assms(6) by (rule play_single_unary [OF assms(1-5)])

lemma play_single:
  assumes "finite_at rw x"
  shows "result (play (specialized_tape rw x) (Trace_new (specialized_tape rw x))) = symbolic rw x \<and>
     adjoints (play (specialized_tape rw x) (Trace_new (specialized_tape rw x))) ! 0 =
       symbolic_gradient rw x \<and>
     read (matrix (hessian (play (specialized_tape rw x) (Trace_new (specialized_tape rw x))))) 0 0 =
       symbolic_hessian rw x"
proof (cases rw)
  case SelfMinus
  have "play (specialized_tape rw x) (Trace_new (specialized_tape rw x)) =
      \<lparr>values' = [x, 0], adjoints = [0, 1], hessian = \<lparr>width = 1, matrix = []\<rparr>\<rparr>"
    using play_single_op [of "TrivialScalar 0" x 0 rw] SelfMinus by simp
  with SelfMinus show ?thesis by (simp add: result_def read_def)
next
  case SelfDivide
  have "play (specialized_tape rw x) (Trace_new (specialized_tape rw x)) =
      \<lparr>values' = [x, 1], adjoints = [0, 1], hessian = \<lparr>width = 1, matrix = []\<rparr>\<rparr>"
    using play_single_op [of "TrivialScalar 1" x 1 rw] SelfDivide by simp
  with SelfDivide show ?thesis by (simp add: result_def read_def)
next
  case PowerZero
  have "play (specialized_tape rw x) (Trace_new (specialized_tape rw x)) =
      \<lparr>values' = [x, 1], adjoints = [0, 1], hessian = \<lparr>width = 1, matrix = []\<rparr>\<rparr>"
    using play_single_op [of "TrivialScalar 1" x 1 rw] PowerZero by simp
  with PowerZero show ?thesis by (simp add: result_def read_def)
next
  case PowerOne
  have "play (specialized_tape rw x) (Trace_new (specialized_tape rw x)) =
      \<lparr>values' = [x, x], adjoints = [1, 1], hessian = \<lparr>width = 1, matrix = []\<rparr>\<rparr>"
    using play_single_op [of IdentityScalar x x rw] PowerOne by simp
  with PowerOne show ?thesis by (simp add: result_def read_def)
next
  case PowerTwo
  have "play (specialized_tape rw x) (Trace_new (specialized_tape rw x)) =
      \<lparr>values' = [x, x * x], adjoints = [2 * x, 1],
       hessian = \<lparr>width = 1, matrix = [(0, [(0, 2)])]\<rparr>\<rparr>"
    using play_single_op [of SquareScalar x "x * x" rw] PowerTwo by simp
  with PowerTwo show ?thesis by (simp add: result_def read_def power2_eq_square)
next
  case PowerThree
  have "play (specialized_tape rw x) (Trace_new (specialized_tape rw x)) =
      \<lparr>values' = [x, x * x * x], adjoints = [3 * x * x, 1],
       hessian = \<lparr>width = 1, matrix = (if 6 * x = 0 then [] else [(0, [(0, 6 * x)])])\<rparr>\<rparr>"
    using play_single_op [of CubeScalar x "x * x * x" rw] PowerThree by simp
  with PowerThree show ?thesis
    by (simp add: result_def read_def power2_eq_square power3_eq_cube)
next
  case OneOver
  with assms have x: "x \<noteq> 0" by simp
  have "play (specialized_tape rw x) (Trace_new (specialized_tape rw x)) =
      \<lparr>values' = [x, 1 / x], adjoints = [- (1 / x) * (1 / x), 1],
       hessian = \<lparr>width = 1, matrix = [(0, [(0, 2 * (1 / x) * (1 / x) * (1 / x))])]\<rparr>\<rparr>"
    using play_single_op [of InvertScalar x "1 / x" rw] OneOver x by simp
  with OneOver x show ?thesis
    by (simp add: result_def read_def power2_eq_square power3_eq_cube)
next
  case SelfPlus
  have "play (specialized_tape rw x) (Trace_new (specialized_tape rw x)) =
      \<lparr>values' = [x, x * 2], adjoints = [2, 1], hessian = \<lparr>width = 1, matrix = []\<rparr>\<rparr>"
    using play_single_op [of "\<lambda>a. MultiplyScalarScalar_tf a 2" x "x * 2" rw] SelfPlus by simp
  with SelfPlus show ?thesis by (simp add: result_def read_def)
qed

lemma symbolic_derivatives:
  assumes "finite_at rw x"
  shows "(symbolic rw has_real_derivative symbolic_gradient rw x) (at x) \<and>
     (symbolic_gradient rw has_real_derivative symbolic_hessian rw x) (at x)"
proof (cases rw)
  case SelfMinus
  have "symbolic SelfMinus = (\<lambda>a. 0)" "symbolic_gradient SelfMinus = (\<lambda>a. 0)"
    by (auto simp: fun_eq_iff)
  with SelfMinus show ?thesis by simp
next
  case SelfDivide
  have "symbolic SelfDivide = (\<lambda>a. 1)" "symbolic_gradient SelfDivide = (\<lambda>a. 0)"
    by (auto simp: fun_eq_iff)
  with SelfDivide show ?thesis by simp
next
  case PowerZero
  have "symbolic PowerZero = (\<lambda>a. 1)" "symbolic_gradient PowerZero = (\<lambda>a. 0)"
    by (auto simp: fun_eq_iff)
  with PowerZero show ?thesis by simp
next
  case PowerOne
  have "symbolic PowerOne = (\<lambda>a. a)" "symbolic_gradient PowerOne = (\<lambda>a. 1)"
    by (auto simp: fun_eq_iff)
  with PowerOne show ?thesis by simp
next
  case PowerTwo
  have s: "symbolic PowerTwo = (\<lambda>a. a ^ 2)" "symbolic_gradient PowerTwo = (\<lambda>a. 2 * a)"
    by (auto simp: fun_eq_iff)
  have "((\<lambda>a::real. a ^ 2) has_real_derivative 2 * x) (at x)"
    by (auto intro!: derivative_eq_intros)
  moreover have "((\<lambda>a::real. 2 * a) has_real_derivative 2) (at x)"
    by (auto intro!: derivative_eq_intros)
  ultimately show ?thesis using PowerTwo s by simp
next
  case PowerThree
  have s: "symbolic PowerThree = (\<lambda>a. a ^ 3)" "symbolic_gradient PowerThree = (\<lambda>a. 3 * a ^ 2)"
    by (auto simp: fun_eq_iff)
  have "((\<lambda>a::real. a ^ 3) has_real_derivative 3 * x ^ 2) (at x)"
    by (auto intro!: derivative_eq_intros)
  moreover have "((\<lambda>a::real. 3 * a ^ 2) has_real_derivative 6 * x) (at x)"
    by (auto intro!: derivative_eq_intros)
  ultimately show ?thesis using PowerThree s by simp
next
  case OneOver
  with assms have x: "x \<noteq> 0" by simp
  have s: "symbolic OneOver = (\<lambda>a. 1 / a)" "symbolic_gradient OneOver = (\<lambda>a. - 1 / a ^ 2)"
    by (auto simp: fun_eq_iff)
  have "((\<lambda>a::real. 1 / a) has_real_derivative - 1 / x ^ 2) (at x)"
    using x by (auto intro!: derivative_eq_intros simp: power2_eq_square)
  moreover have "((\<lambda>a::real. - 1 / a ^ 2) has_real_derivative 2 / x ^ 3) (at x)"
    using x by (auto intro!: derivative_eq_intros simp: power2_eq_square power3_eq_cube field_simps)
  ultimately show ?thesis using OneOver s by simp
next
  case SelfPlus
  have s: "symbolic SelfPlus = (\<lambda>a. 2 * a)" "symbolic_gradient SelfPlus = (\<lambda>a. 2)"
    by (auto simp: fun_eq_iff)
  have "((\<lambda>a::real. 2 * a) has_real_derivative 2) (at x)"
    by (auto intro!: derivative_eq_intros)
  with SelfPlus s show ?thesis by simp
qed

text \<open>Where the expression as written is defined, it is its symbolic equivalent.\<close>

lemma expression_symbolic: "defined_at rw x \<Longrightarrow> expression rw x = symbolic rw x"
  by (cases rw) simp_all

text \<open>
  In any tape, the specialisation computes the symbolic equivalent and its two
  local derivatives at each position, for the scalar and for the vector form.
\<close>

lemma local_semantics_scalar:
  assumes "y < length v" and "a \<noteq> y"
  shows "evaluate (unary_scalar rw a y) v ! y = symbolic rw (v ! a) \<and>
     partial (unary_scalar rw a y) (evaluate (unary_scalar rw a y) v) 0 0 = symbolic_gradient rw (v ! a) \<and>
     partial2 (unary_scalar rw a y) (evaluate (unary_scalar rw a y) v) 0 0 0 = symbolic_hessian rw (v ! a)"
  using assms by (cases rw) (simp_all add: power2_eq_square power3_eq_cube)

lemma local_semantics_vector:
  assumes "snd a \<le> fst y" and "fst y + range_size a \<le> length v" and "i < range_size a"
  shows "evaluate (unary_vector rw a y) v ! range_at y i = symbolic rw (v ! range_at a i) \<and>
     partial (unary_vector rw a y) v i j = (if j = i then symbolic_gradient rw (v ! range_at a i) else 0) \<and>
     partial2 (unary_vector rw a y) v i j k =
       (if j = i \<and> k = i then symbolic_hessian rw (v ! range_at a i) else 0)"
  using assms by (cases rw) (simp_all add: map_range_nth power2_eq_square power3_eq_cube)

text \<open>
  Recording emits the specialisation for every handle and tape, and a tape that
  consists of one rewritten expression over a fresh scalar input of value \<open>x\<close> (with
  \<open>x \<noteq> 0\<close> for \<open>1 / a\<close>) plays to the value, the derivative and the second derivative
  of the symbolic equivalent, which is the expression as written wherever that is
  defined.
\<close>

lemma single_rewrite_played:
  assumes "finite_at rw x"
  shows "(\<exists>s. record_rewrite rw a t = Inr (s, op_register (specialization rw a t) t) \<and>
            tape_begin s = n_trace_size t) \<and>
     recorded_tape rw x = Inr (specialized_tape rw x) \<and>
     result (play (specialized_tape rw x) (Trace_new (specialized_tape rw x))) = symbolic rw x \<and>
     adjoints (play (specialized_tape rw x) (Trace_new (specialized_tape rw x))) ! 0 =
       symbolic_gradient rw x \<and>
     read (matrix (hessian (play (specialized_tape rw x) (Trace_new (specialized_tape rw x))))) 0 0 =
       symbolic_hessian rw x \<and>
     (symbolic rw has_real_derivative symbolic_gradient rw x) (at x) \<and>
     (symbolic_gradient rw has_real_derivative symbolic_hessian rw x) (at x) \<and>
     (defined_at rw x \<longrightarrow> expression rw x = symbolic rw x)"
  using emitted [of rw a t] recorded_tape_specialized [of rw x] play_single [OF assms]
    symbolic_derivatives [OF assms] expression_symbolic [of rw x]
  by simp

text \<open>
  The vector form on a fresh input: the objective is the last square, \<open>y\<^sup>2\<close>, with the
  gradient \<open>(0, 2 y)\<close> and the one Hessian element \<open>h(1, 1) = 2\<close>.
\<close>

lemma squared_vector_recorded:
  "(case Spy_input \<lparr>dim = [2], val = [x, y]\<rparr> (Tape_new 0) of
      Inl e \<Rightarrow> Inl e
    | Inr (a, t1) \<Rightarrow> map_sum id snd (spy_pow a (Tensor_of_double 2) t1))
   = Inr (squared_vector x y)"
  by (simp add: squared_vector_def Spy_input_def Tape_new_def Tensor_of_double_def Spy_at_def
      input_size_def Let_def is_scalar_def tensor_size_def product_def rec_range_def
      op_register_def trace_size_def tape_begin_def tape_end_def as_Range_def range_size_def
      spy_pow_def with_value_def tensor_op_def vec_op_def scalar_def)

lemma squared_vector_played:
  "play (squared_vector 3 5) (Trace_new (squared_vector 3 5)) =
     \<lparr>values' = [3, 5, 9, 25], adjoints = [0, 10, 0, 1],
      hessian = \<lparr>width = 2, matrix = [(1, [(1, 2)])]\<rparr>\<rparr>"
  by code_simp

text \<open>
  The two longer tapes are what the recorder produces, and their objectives are the
  constant \<open>1\<close> and the input \<open>x\<close> itself.
\<close>

lemma squared_quotient_by_copy_recorded:
  "(case Spy_input (Tensor_of_double x) (Tape_new 0) of
      Inl e \<Rightarrow> Inl e
    | Inr (a, t1) \<Rightarrow>
        (case Spy_copy a t1 of (b, t2) \<Rightarrow>
           (case spy_divide a b t2 of
              Inl e \<Rightarrow> Inl e
            | Inr (c, t3) \<Rightarrow> map_sum id snd (spy_pow c (Tensor_of_double 2) t3))))
   = Inr (squared_quotient_by_copy x)"
  by (simp add: squared_quotient_by_copy_def Spy_input_def Tape_new_def Tensor_of_double_def Spy_at_def
      input_size_def Spy_copy_def Let_def is_scalar_def tensor_size_def product_def rec_scalar_def
      op_register_def trace_size_def tape_begin_def spy_divide_def spy_pow_def with_value_def
      tensor_op_def vec_op_def scalar_def)

lemma square_over_input_recorded:
  "(case Spy_input (Tensor_of_double x) (Tape_new 0) of
      Inl e \<Rightarrow> Inl e
    | Inr (a, t1) \<Rightarrow>
        (case spy_pow a (Tensor_of_double 2) t1 of
           Inl e \<Rightarrow> Inl e
         | Inr (b, t2) \<Rightarrow> map_sum id snd (spy_divide b a t2)))
   = Inr (square_over_input x)"
  by (simp add: square_over_input_def Spy_input_def Tape_new_def Tensor_of_double_def Spy_at_def
      input_size_def Let_def is_scalar_def tensor_size_def product_def rec_scalar_def
      op_register_def trace_size_def tape_begin_def spy_divide_def spy_pow_def with_value_def
      tensor_op_def vec_op_def scalar_def)

lemma squared_quotient_by_copy_objective:
  "x \<noteq> 0 \<Longrightarrow>
   result (play_forward (squared_quotient_by_copy x) (Trace_new (squared_quotient_by_copy x))) = 1"
  by (simp add: squared_quotient_by_copy_def play_forward_def Trace_new_def result_def trace_size_def
      eval_nat_numeral)

lemma square_over_input_objective:
  "x \<noteq> 0 \<Longrightarrow> result (play_forward (square_over_input x) (Trace_new (square_over_input x))) = x"
  by (simp add: square_over_input_def play_forward_def Trace_new_def result_def trace_size_def
      eval_nat_numeral)

text \<open>
  \<^bold>\<open>Claim C5\<close>, on playing a tape that holds a rewrite. The recorder emits the listed
  specialisation (\<open>emitted\<close>), and a tape made of the rewrite alone plays to the
  value, the gradient and the Hessian of the symbolic equivalent
  (\<open>single_rewrite_played\<close>). On a longer tape the played Hessian is not that of the
  symbolic equivalent. For \<^verbatim>\<open>pow(x / y, 2.)\<close> with \<open>y\<close> a copy of \<open>x\<close>, at \<open>x = 2\<close>,
  the square is emitted for \<open>a = x / y\<close> and the played tape has the value \<open>1\<close> and
  the gradient \<open>0\<close> of the constant \<open>1\<close>, but stores \<open>h(0, 0) = 1\<close>. For
  \<^verbatim>\<open>pow(x, 2.) / x\<close> at \<open>x = 3\<close>, the played tape has the value \<open>3\<close> and the gradient
  \<open>1\<close> of \<open>x\<close>, but stores \<open>h(0, 0) = 2/3\<close>: on visiting the emitted square (slot 1)
  the reverse sweep pushes the live element \<open>h(1, 0)\<close> onto \<open>h(0, 0)\<close> once, where the
  operand is the live variable and the update rule adds it twice. The equivalent
  built without the rewrite differs as well: \<^verbatim>\<open>x / x\<close>, rewritten, plays to an empty
  Hessian at \<open>x = 2\<close>, and \<^verbatim>\<open>x / y\<close> with \<open>y\<close> a copy of \<open>x\<close> to \<open>h(0, 0) = 1/4\<close>.
\<close>

theorem rewritten_hessian_differs:
  "play (squared_quotient_by_copy 2) (Trace_new (squared_quotient_by_copy 2)) =
     \<lparr>values' = [2, 2, 1, 1], adjoints = [0, - 1, 2, 1],
      hessian = \<lparr>width = 1, matrix = [(0, [(0, 1)])]\<rparr>\<rparr> \<and>
   play (square_over_input 3) (Trace_new (square_over_input 3)) =
     \<lparr>values' = [3, 9, 3], adjoints = [1, 1 / 3, 1],
      hessian = \<lparr>width = 1, matrix = [(0, [(0, 2 / 3)])]\<rparr>\<rparr> \<and>
   play (specialized_tape SelfDivide 2) (Trace_new (specialized_tape SelfDivide 2)) =
     \<lparr>values' = [2, 1], adjoints = [0, 1], hessian = \<lparr>width = 1, matrix = []\<rparr>\<rparr> \<and>
   play (quotient_by_copy 2) (Trace_new (quotient_by_copy 2)) =
     \<lparr>values' = [2, 2, 1], adjoints = [0, - 1 / 2, 1],
      hessian = \<lparr>width = 1, matrix = [(0, [(0, 1 / 4)])]\<rparr>\<rparr>"
  by code_simp

end
